theory Spec2Isabelle
  imports Complex_Main "HOL-Library.AList" "HOL-Library.Multiset"
begin

section \<open>Request bodies and the zod checks\<close>

text \<open>
  A field of \<open>req.body\<close> is any JSON value, or \<open>undefined\<close> when the key is
  absent. Only strings are told apart by their content: the schemas of the server ask
  for nothing but strings and enumerated strings. A string is the list of its
  characters; the character U+0000, which JSON writes \<open>\u0000\<close>, is
  \<open>CHR 0x00\<close>.
\<close>

datatype jsval = JUndefined | JNull | JBool bool | JNum int | JStr string | JObject

text \<open>\<open>z.string()\<close>\<close>

fun z_string :: "jsval \<Rightarrow> bool" where
  "z_string (JStr s) = True"
| "z_string _ = False"

text \<open>\<open>z.string().min(n)\<close>; the length of an ASCII string is its number of characters.\<close>

fun z_string_min :: "nat \<Rightarrow> jsval \<Rightarrow> bool" where
  "z_string_min n (JStr s) = (n \<le> length s)"
| "z_string_min n _ = False"

text \<open>\<open>z.enum([...])\<close>\<close>

fun z_enum :: "string list \<Rightarrow> jsval \<Rightarrow> bool" where
  "z_enum names (JStr s) = (s \<in> set names)"
| "z_enum names _ = False"

text \<open>
  \<open>z.string().email()\<close>: the pattern of the zod library is not part of the
  repository and is a parameter, \<open>isEmail\<close>.
\<close>

fun z_string_email :: "(string \<Rightarrow> bool) \<Rightarrow> jsval \<Rightarrow> bool" where
  "z_string_email isEmail (JStr s) = isEmail s"
| "z_string_email isEmail _ = False"

text \<open>The string a validated field holds.\<close>

fun str_of :: "jsval \<Rightarrow> string" where
  "str_of (JStr s) = s"
| "str_of _ = []"

section \<open>The tables of shared/schema.ts\<close>

datatype role = Student | Proctor

fun role_name :: "role \<Rightarrow> string" where
  "role_name Student = ''student''"
| "role_name Proctor = ''proctor''"

datatype query_status = Pending | InProgress | Resolved | Closed

fun status_name :: "query_status \<Rightarrow> string" where
  "status_name Pending = ''pending''"
| "status_name InProgress = ''in_progress''"
| "status_name Resolved = ''resolved''"
| "status_name Closed = ''closed''"

text \<open>Timestamps are milliseconds since the epoch.\<close>

record user =
  u_id :: int
  u_email :: string
  u_username :: string
  u_password :: string
  u_role :: role
  u_name :: string
  u_createdAt :: int

record studentProfile =
  sp_id :: int
  sp_userId :: int
  sp_studentId :: string
  sp_department :: string
  sp_proctorId :: "int option"
  sp_semester :: int
  sp_cgpa :: "rat option"

record proctorProfile =
  pp_id :: int
  pp_userId :: int
  pp_facultyId :: string
  pp_department :: string
  pp_phone :: "string option"
  pp_designation :: string

record attendanceRow =
  at_id :: int
  at_studentId :: int
  at_courseId :: string
  at_courseName :: string
  at_date :: int
  at_isPresent :: bool

text \<open>
  The marks, like the two \<open>cgpa\<close> columns, are nullable \<open>real\<close> columns; a
  value read from one is a double, which is a rational number.
\<close>

record academicRecord =
  ar_id :: int
  ar_studentId :: int
  ar_courseId :: string
  ar_courseName :: string
  ar_semester :: int
  ar_internalMarks :: "rat option"
  ar_quizMarks :: "rat option"
  ar_projectMarks :: "rat option"
  ar_semesterMarks :: "rat option"
  ar_CGPA :: "rat option"

record query =
  q_id :: int
  q_studentId :: int
  q_proctorId :: int
  q_subject :: string
  q_description :: string
  q_status :: query_status
  q_createdAt :: int
  q_updatedAt :: int

record queryResponse =
  qr_id :: int
  qr_queryId :: int
  qr_userId :: int
  qr_response :: string
  qr_createdAt :: int

record passwordResetToken =
  t_id :: int
  t_userId :: int
  t_token :: string
  t_expiresAt :: int
  t_createdAt :: int
  t_usedAt :: "int option"

text \<open>
  The database: one list of rows per table, and the next value of the \<open>serial\<close>
  sequence of each table the server inserts into.
\<close>

record store =
  users :: "user list"
  studentProfiles :: "studentProfile list"
  proctorProfiles :: "proctorProfile list"
  attendance :: "attendanceRow list"
  academicRecords :: "academicRecord list"
  queries :: "query list"
  queryResponses :: "queryResponse list"
  passwordResetTokens :: "passwordResetToken list"
  queries_seq :: int
  queryResponses_seq :: int
  passwordResetTokens_seq :: int

section \<open>What a handler needs from outside the repository\<close>

text \<open>
  \<open>scrypt\<close> and the e-mail pattern of zod are library functions; the clock, the
  random bytes and the fate of the outgoing mail are inputs of a request. The clock is
  read once per request.
\<close>

record lib =
  scrypt :: "string \<Rightarrow> string \<Rightarrow> string"
  isEmail :: "string \<Rightarrow> bool"

record env =
  clock :: int
  randomSalt :: string
  randomToken :: string
  sendMailOk :: bool

text \<open>
  A reply is \<open>res.status(code).json(body)\<close>; \<open>Message m\<close> is the body
  \<open>{message: m}\<close>, \<open>MessageErrors m\<close> the body \<open>{message: m, errors: ...}\<close>
  of a failed schema check, \<open>MessageError m\<close> the body \<open>{message: m, error: ...}\<close>,
  and \<open>Data x\<close> the payload of a success. \<open>NextError\<close> hands an error to
  \<open>next(err)\<close>.
\<close>

datatype 'a payload = Message string | MessageErrors string | MessageError string | Data 'a

datatype 'a reply = Reply nat "'a payload" | NextError

section \<open>What the database refuses\<close>

datatype js_error = TypeError | RangeError | UniqueViolation | DatabaseError

text \<open>
  A query that the database refuses rejects its promise, and the \<open>catch\<close> of the
  handler answers. Three refusals are within reach of a request. A \<open>text\<close> value,
  stored or compared, must not hold the character U+0000. An \<open>integer\<close> value, the
  type of every id column, lies between \<open>-2^31\<close> and \<open>2^31 - 1\<close>. And the id
  of a new row is the next value of the \<open>serial\<close> sequence of its table: the
  sequence ends at \<open>2^31 - 1\<close>, and a value that is the id of a row already makes
  the insert fail on the primary key, after the sequence has moved on.
\<close>

definition pg_text :: "string \<Rightarrow> bool" where
  "pg_text t = (CHR 0x00 \<notin> set t)"

definition int4 :: "int \<Rightarrow> bool" where
  "int4 i = (- 2147483648 \<le> i \<and> i \<le> 2147483647)"

section \<open>server/storage.ts\<close>

definition getUser :: "store \<Rightarrow> int \<Rightarrow> user option" where
  "getUser s i = find (\<lambda>u. u_id u = i) (users s)"

definition getUserByEmail :: "store \<Rightarrow> string \<Rightarrow> js_error + user option" where
  "getUserByEmail s email =
     (if \<not> pg_text email then Inl DatabaseError
      else Inr (find (\<lambda>u. u_email u = email) (users s)))"

text \<open>
  \<open>getPasswordResetToken\<close>: the row whose token is the given one, whose \<open>usedAt\<close>
  is not null (\<open>isNotNull(passwordResetTokens.usedAt)\<close>) and whose expiry is later
  than now.
\<close>

definition getPasswordResetToken ::
  "store \<Rightarrow> int \<Rightarrow> string \<Rightarrow> js_error + passwordResetToken option" where
  "getPasswordResetToken s now token =
     (if \<not> pg_text token then Inl DatabaseError
      else Inr (find (\<lambda>t. t_token t = token \<and> t_usedAt t \<noteq> None \<and> now < t_expiresAt t)
                  (passwordResetTokens s)))"

definition markTokenAsUsed :: "store \<Rightarrow> int \<Rightarrow> string \<Rightarrow> store" where
  "markTokenAsUsed s now token =
     s\<lparr>passwordResetTokens :=
         map (\<lambda>t. if t_token t = token then t\<lparr>t_usedAt := Some now\<rparr> else t)
           (passwordResetTokens s)\<rparr>"

definition deleteExpiredTokens :: "store \<Rightarrow> int \<Rightarrow> store" where
  "deleteExpiredTokens s now =
     s\<lparr>passwordResetTokens :=
         filter (\<lambda>t. \<not> (t_expiresAt t < now \<or> t_usedAt t \<noteq> None))
           (passwordResetTokens s)\<rparr>"

text \<open>\<open>updateUserPassword\<close> returns the first updated row with the new store.\<close>

definition updateUserPassword :: "store \<Rightarrow> int \<Rightarrow> string \<Rightarrow> user option \<times> store" where
  "updateUserPassword s userId hashedPassword =
     (let s' = s\<lparr>users :=
                 map (\<lambda>u. if u_id u = userId then u\<lparr>u_password := hashedPassword\<rparr> else u)
                   (users s)\<rparr>
      in (getUser s' userId, s'))"

section \<open>server/auth.ts: passwords\<close>

text \<open>
  \<open>hashPassword\<close>: the hex text of the scrypt of the password under a fresh salt, a
  dot, and the salt.
\<close>

definition hashPassword :: "lib \<Rightarrow> string \<Rightarrow> string \<Rightarrow> string" where
  "hashPassword L salt password = scrypt L password salt @ ''.'' @ salt"

section \<open>POST /api/reset-password\<close>

record reset_body =
  rb_token :: jsval
  rb_newPassword :: jsval

definition passwordResetSchema :: "reset_body \<Rightarrow> bool" where
  "passwordResetSchema b = (z_string (rb_token b) \<and> z_string_min 6 (rb_newPassword b))"

definition reset_password :: "lib \<Rightarrow> env \<Rightarrow> store \<Rightarrow> reset_body \<Rightarrow> unit reply \<times> store" where
  "reset_password L e s b =
     (if \<not> passwordResetSchema b then (Reply 400 (MessageErrors ''Invalid request data''), s)
      else
        let token = str_of (rb_token b); newPassword = str_of (rb_newPassword b) in
        case getPasswordResetToken s (clock e) token of
          Inl err \<Rightarrow> (Reply 500 (Message ''Failed to reset password''), s)
        | Inr None \<Rightarrow> (Reply 400 (Message ''Invalid or expired reset token''), s)
        | Inr (Some resetToken) \<Rightarrow>
            let hashedPassword = hashPassword L (randomSalt e) newPassword in
            (case updateUserPassword s (t_userId resetToken) hashedPassword of
               (None, s') \<Rightarrow> (Reply 404 (Message ''User not found''), s')
             | (Some u, s') \<Rightarrow>
                 (Reply 200 (Message ''Password has been reset successfully''),
                  markTokenAsUsed s' (clock e) token)))"

section \<open>server/storage.ts: profiles, queries and responses\<close>

definition getStudentProfile :: "store \<Rightarrow> int \<Rightarrow> studentProfile option" where
  "getStudentProfile s userId = find (\<lambda>p. sp_userId p = userId) (studentProfiles s)"

definition getProctorProfile :: "store \<Rightarrow> int \<Rightarrow> proctorProfile option" where
  "getProctorProfile s userId = find (\<lambda>p. pp_userId p = userId) (proctorProfiles s)"

definition getProctorProfileById :: "store \<Rightarrow> int \<Rightarrow> proctorProfile option" where
  "getProctorProfileById s i = find (\<lambda>p. pp_id p = i) (proctorProfiles s)"

text \<open>
  \<open>getQueryById\<close> is given the number \<open>parseInt\<close> read from the path, which
  need not be an \<open>integer\<close> of the database.
\<close>

definition getQueryById :: "store \<Rightarrow> int \<Rightarrow> js_error + query option" where
  "getQueryById s i =
     (if \<not> int4 i then Inl DatabaseError
      else Inr (find (\<lambda>q. q_id q = i) (queries s)))"

text \<open>
  What \<open>createQuery\<close> is given: the four fields the handler assembles. The insert
  leaves \<open>id\<close> to the sequence and \<open>status\<close>, \<open>createdAt\<close> and
  \<open>updatedAt\<close> to the defaults of the table (\<open>'pending'\<close>, now, now).
\<close>

record queryData =
  qd_studentId :: int
  qd_proctorId :: int
  qd_subject :: jsval
  qd_description :: jsval

definition createQuery :: "store \<Rightarrow> int \<Rightarrow> queryData \<Rightarrow> (js_error + query) \<times> store" where
  "createQuery s now d =
     (if \<not> (pg_text (str_of (qd_subject d)) \<and> pg_text (str_of (qd_description d)))
      then (Inl DatabaseError, s)
      else if 2147483647 < queries_seq s then (Inl DatabaseError, s)
      else if queries_seq s \<in> set (map q_id (queries s))
      then (Inl UniqueViolation, s\<lparr>queries_seq := queries_seq s + 1\<rparr>)
      else
        let newQuery = \<lparr>q_id = queries_seq s, q_studentId = qd_studentId d,
              q_proctorId = qd_proctorId d, q_subject = str_of (qd_subject d),
              q_description = str_of (qd_description d), q_status = Pending,
              q_createdAt = now, q_updatedAt = now\<rparr>
        in (Inr newQuery,
            s\<lparr>queries := queries s @ [newQuery], queries_seq := queries_seq s + 1\<rparr>))"

definition updateQueryStatus :: "store \<Rightarrow> int \<Rightarrow> int \<Rightarrow> query_status \<Rightarrow> query option \<times> store" where
  "updateQueryStatus s now i st =
     (let s' = s\<lparr>queries :=
                 map (\<lambda>q. if q_id q = i then q\<lparr>q_status := st, q_updatedAt := now\<rparr> else q)
                   (queries s)\<rparr>
      in (find (\<lambda>q. q_id q = i) (queries s'), s'))"

definition getQueryResponses :: "store \<Rightarrow> int \<Rightarrow> queryResponse list" where
  "getQueryResponses s queryId =
     sort_key qr_createdAt (filter (\<lambda>r. qr_queryId r = queryId) (queryResponses s))"

definition createQueryResponse ::
  "store \<Rightarrow> int \<Rightarrow> int \<Rightarrow> int \<Rightarrow> string \<Rightarrow> (js_error + queryResponse) \<times> store" where
  "createQueryResponse s now queryId userId response =
     (if \<not> pg_text response then (Inl DatabaseError, s)
      else if 2147483647 < queryResponses_seq s then (Inl DatabaseError, s)
      else if queryResponses_seq s \<in> set (map qr_id (queryResponses s))
      then (Inl UniqueViolation, s\<lparr>queryResponses_seq := queryResponses_seq s + 1\<rparr>)
      else
        let newResponse = \<lparr>qr_id = queryResponses_seq s, qr_queryId = queryId,
              qr_userId = userId, qr_response = response, qr_createdAt = now\<rparr>
        in (Inr newResponse,
            s\<lparr>queryResponses := queryResponses s @ [newResponse],
              queryResponses_seq := queryResponses_seq s + 1\<rparr>))"

section \<open>server/routes.ts: the query workflow\<close>

text \<open>
  \<open>req.user\<close> is the user the session resolves to, if any. \<open>isAuthenticated\<close>
  answers 401 without one, \<open>isRole(role)\<close> answers 403 to another role. The path
  parameter \<open>:id\<close> is given as the result of \<open>parseInt\<close>, \<open>None\<close> for NaN.
\<close>

definition unauthorized :: "'a reply" where
  "unauthorized = Reply 401 (Message ''Unauthorized'')"

definition access_forbidden :: "'a reply" where
  "access_forbidden = Reply 403 (Message ''Access forbidden'')"

text \<open>
  \<open>insertQuerySchema\<close> is \<open>createInsertSchema(queries)\<close> without \<open>id\<close>,
  \<open>status\<close>, \<open>createdAt\<close> and \<open>updatedAt\<close>: the two integer columns, which
  the handler fills from the database, and the two \<open>text\<close> columns, which must be
  strings. The table declares no length.
\<close>

definition insertQuerySchema :: "queryData \<Rightarrow> bool" where
  "insertQuerySchema d = (z_string (qd_subject d) \<and> z_string (qd_description d))"

text \<open>The body of POST /api/student/queries; \<open>qb_status\<close> is a key the handler never reads.\<close>

record query_body =
  qb_subject :: jsval
  qb_description :: jsval
  qb_status :: jsval

definition create_query :: "env \<Rightarrow> store \<Rightarrow> user option \<Rightarrow> query_body \<Rightarrow> query reply \<times> store" where
  "create_query e s req_user b =
     (case req_user of
        None \<Rightarrow> (unauthorized, s)
      | Some u \<Rightarrow>
          if u_role u \<noteq> Student then (access_forbidden, s)
          else
            (case getStudentProfile s (u_id u) of
               None \<Rightarrow> (Reply 404 (Message ''Student profile not found''), s)
             | Some studentProfile \<Rightarrow>
                 (case sp_proctorId studentProfile of
                    None \<Rightarrow> (Reply 400 (Message ''No proctor assigned to student''), s)
                  | Some pid \<Rightarrow>
                      if pid = 0 then (Reply 400 (Message ''No proctor assigned to student''), s)
                      else
                        (case getProctorProfileById s pid of
                           None \<Rightarrow> (Reply 404 (Message ''Proctor not found''), s)
                         | Some proctorProfile \<Rightarrow>
                             let queryData = \<lparr>qd_studentId = u_id u,
                                   qd_proctorId = pp_userId proctorProfile,
                                   qd_subject = qb_subject b,
                                   qd_description = qb_description b\<rparr>
                             in if \<not> insertQuerySchema queryData
                                then (Reply 400 (MessageErrors ''Invalid query data''), s)
                                else
                                  (case createQuery s (clock e) queryData of
                                     (Inl err, s') \<Rightarrow>
                                       (Reply 500 (MessageError ''Failed to create query''), s')
                                   | (Inr newQuery, s') \<Rightarrow>
                                       (Reply 201 (Data newQuery), s'))))))"

text \<open>POST /api/proctor/queries/:id/respond\<close>

definition proctor_respond ::
  "env \<Rightarrow> store \<Rightarrow> user option \<Rightarrow> int option \<Rightarrow> jsval \<Rightarrow> queryResponse reply \<times> store" where
  "proctor_respond e s req_user id_param response =
     (case req_user of
        None \<Rightarrow> (unauthorized, s)
      | Some u \<Rightarrow>
          if u_role u \<noteq> Proctor then (access_forbidden, s)
          else
            (case id_param of
               None \<Rightarrow> (Reply 400 (Message ''Invalid query ID''), s)
             | Some queryId \<Rightarrow>
                 if \<not> z_string response then (Reply 400 (Message ''Invalid response data''), s)
                 else
                   (case getQueryById s queryId of
                      Inl err \<Rightarrow> (Reply 500 (Message ''Failed to create response''), s)
                    | Inr None \<Rightarrow> (Reply 404 (Message ''Query not found''), s)
                    | Inr (Some q) \<Rightarrow>
                        if q_proctorId q \<noteq> u_id u
                        then (Reply 403 (Message ''You cannot respond to this query''), s)
                        else
                          (case createQueryResponse s (clock e) queryId (u_id u) (str_of response) of
                             (Inl err, s') \<Rightarrow>
                               (Reply 500 (Message ''Failed to create response''), s')
                           | (Inr newResponse, s') \<Rightarrow>
                               (Reply 201 (Data newResponse),
                                if q_status q = Pending
                                then snd (updateQueryStatus s' (clock e) queryId InProgress)
                                else s')))))"

text \<open>PATCH /api/proctor/queries/:id/status; \<open>statusSchema\<close> is the enumeration of the four names.\<close>

fun parse_status :: "jsval \<Rightarrow> query_status option" where
  "parse_status (JStr n) =
     (if n = ''pending'' then Some Pending
      else if n = ''in_progress'' then Some InProgress
      else if n = ''resolved'' then Some Resolved
      else if n = ''closed'' then Some Closed
      else None)"
| "parse_status _ = None"

definition update_status ::
  "env \<Rightarrow> store \<Rightarrow> user option \<Rightarrow> int option \<Rightarrow> jsval \<Rightarrow> query option reply \<times> store" where
  "update_status e s req_user id_param status =
     (case req_user of
        None \<Rightarrow> (unauthorized, s)
      | Some u \<Rightarrow>
          if u_role u \<noteq> Proctor then (access_forbidden, s)
          else
            (case id_param of
               None \<Rightarrow> (Reply 400 (Message ''Invalid query ID''), s)
             | Some queryId \<Rightarrow>
                 (case parse_status status of
                    None \<Rightarrow> (Reply 400 (Message ''Invalid status''), s)
                  | Some st \<Rightarrow>
                      (case getQueryById s queryId of
                         Inl err \<Rightarrow> (Reply 500 (Message ''Failed to update query status''), s)
                       | Inr None \<Rightarrow> (Reply 404 (Message ''Query not found''), s)
                       | Inr (Some q) \<Rightarrow>
                           if q_proctorId q \<noteq> u_id u
                           then (Reply 403 (Message ''You cannot update this query''), s)
                           else
                             (case updateQueryStatus s (clock e) queryId st of
                                (updatedQuery, s') \<Rightarrow> (Reply 200 (Data updatedQuery), s'))))))"

text \<open>GET /api/queries/:id\<close>

record queryDetail =
  det_query :: query
  det_student :: "(int \<times> string \<times> string) option"
  det_proctor :: "(int \<times> string \<times> string) option"
  det_responses :: "(queryResponse \<times> (int \<times> string \<times> role) option) list"

definition view_query :: "store \<Rightarrow> user option \<Rightarrow> int option \<Rightarrow> queryDetail reply \<times> store" where
  "view_query s req_user id_param =
     (case req_user of
        None \<Rightarrow> (unauthorized, s)
      | Some u \<Rightarrow>
          (case id_param of
             None \<Rightarrow> (Reply 400 (Message ''Invalid query ID''), s)
           | Some queryId \<Rightarrow>
               (case getQueryById s queryId of
                  Inl err \<Rightarrow> (Reply 500 (Message ''Failed to fetch query details''), s)
                | Inr None \<Rightarrow> (Reply 404 (Message ''Query not found''), s)
                | Inr (Some q) \<Rightarrow>
                    if q_studentId q \<noteq> u_id u \<and> q_proctorId q \<noteq> u_id u
                    then (Reply 403 (Message ''You do not have permission to view this query''), s)
                    else
                      (Reply 200 (Data
                         \<lparr>det_query = q,
                          det_student = map_option (\<lambda>x. (u_id x, u_name x, u_email x))
                                          (getUser s (q_studentId q)),
                          det_proctor = map_option (\<lambda>x. (u_id x, u_name x, u_email x))
                                          (getUser s (q_proctorId q)),
                          det_responses =
                            map (\<lambda>r. (r, map_option (\<lambda>x. (u_id x, u_name x, u_role x))
                                            (getUser s (qr_userId r))))
                              (getQueryResponses s queryId)\<rparr>), s))))"

text \<open>POST /api/queries/:id/respond\<close>

definition respond ::
  "env \<Rightarrow> store \<Rightarrow> user option \<Rightarrow> int option \<Rightarrow> jsval \<Rightarrow> queryResponse reply \<times> store" where
  "respond e s req_user id_param response =
     (case req_user of
        None \<Rightarrow> (unauthorized, s)
      | Some u \<Rightarrow>
          (case id_param of
             None \<Rightarrow> (Reply 400 (Message ''Invalid query ID''), s)
           | Some queryId \<Rightarrow>
               if \<not> z_string response then (Reply 400 (Message ''Invalid response data''), s)
               else
                 (case getQueryById s queryId of
                    Inl err \<Rightarrow> (Reply 500 (Message ''Failed to create response''), s)
                  | Inr None \<Rightarrow> (Reply 404 (Message ''Query not found''), s)
                  | Inr (Some q) \<Rightarrow>
                      if q_studentId q \<noteq> u_id u \<and> q_proctorId q \<noteq> u_id u
                      then (Reply 403 (Message ''You do not have permission to respond to this query''), s)
                      else
                        (case createQueryResponse s (clock e) queryId (u_id u) (str_of response) of
                           (Inl err, s') \<Rightarrow>
                             (Reply 500 (Message ''Failed to create response''), s')
                         | (Inr newResponse, s') \<Rightarrow> (Reply 201 (Data newResponse), s')))))"

section \<open>server/auth.ts: login\<close>

text \<open>
  \<open>stored.split(".")\<close>: the text before the first dot and, when there is a dot, the
  text between the first and the second.
\<close>

definition split_dot :: "string \<Rightarrow> string \<times> string option" where
  "split_dot stored =
     (let hashed = takeWhile (\<lambda>c. c \<noteq> CHR ''.'') stored;
          rest = dropWhile (\<lambda>c. c \<noteq> CHR ''.'') stored
      in (hashed, if rest = [] then None else Some (takeWhile (\<lambda>c. c \<noteq> CHR ''.'') (tl rest))))"

text \<open>
  \<open>comparePasswords\<close>. A buffer is represented by its hex text, which is how
  \<open>hashPassword\<close> stores it. \<open>scrypt\<close> throws a TypeError without a salt and
  \<open>timingSafeEqual\<close> a RangeError on buffers of different lengths.
\<close>

definition comparePasswords :: "lib \<Rightarrow> string \<Rightarrow> string \<Rightarrow> js_error + bool" where
  "comparePasswords L supplied stored =
     (case split_dot stored of
        (hashed, None) \<Rightarrow> Inl TypeError
      | (hashed, Some salt) \<Rightarrow>
          let suppliedBuf = scrypt L supplied salt in
          if length hashed \<noteq> length suppliedBuf then Inl RangeError
          else Inr (hashed = suppliedBuf))"

text \<open>The verify function given to passport's LocalStrategy.\<close>

definition localStrategy :: "lib \<Rightarrow> store \<Rightarrow> string \<Rightarrow> string \<Rightarrow> js_error + user option" where
  "localStrategy L s email password =
     (case getUserByEmail s email of
        Inl err \<Rightarrow> Inl err
      | Inr None \<Rightarrow> Inr None
      | Inr (Some u) \<Rightarrow>
          (case comparePasswords L password (u_password u) of
             Inl err \<Rightarrow> Inl err
           | Inr ok \<Rightarrow> if ok then Inr (Some u) else Inr None))"

record login_body =
  lb_email :: jsval
  lb_password :: jsval
  lb_role :: jsval

definition loginSchema :: "lib \<Rightarrow> login_body \<Rightarrow> bool" where
  "loginSchema L b =
     (z_string_email (isEmail L) (lb_email b) \<and> z_string_min 6 (lb_password b)
      \<and> z_enum [''student'', ''proctor''] (lb_role b))"

text \<open>The user as the login answers it: every column but the password.\<close>

record userResponse =
  ur_id :: int
  ur_email :: string
  ur_username :: string
  ur_role :: role
  ur_name :: string
  ur_createdAt :: int

definition without_password :: "user \<Rightarrow> userResponse" where
  "without_password u = \<lparr>ur_id = u_id u, ur_email = u_email u, ur_username = u_username u,
     ur_role = u_role u, ur_name = u_name u, ur_createdAt = u_createdAt u\<rparr>"

text \<open>
  POST /api/login. The session of the client holds the id \<open>serializeUser\<close> stored,
  if any; \<open>req.login\<close> stores the id of the user. After \<open>loginSchema\<close> the e-mail
  and the password are non-empty strings, so passport-local reaches the verify function.
\<close>

definition login :: "lib \<Rightarrow> store \<Rightarrow> int option \<Rightarrow> login_body \<Rightarrow> userResponse reply \<times> int option" where
  "login L s session b =
     (if \<not> loginSchema L b then (Reply 400 (MessageErrors ''Invalid login data''), session)
      else
        (case localStrategy L s (str_of (lb_email b)) (str_of (lb_password b)) of
           Inl err \<Rightarrow> (NextError, session)
         | Inr None \<Rightarrow> (Reply 401 (Message ''Invalid email or password''), session)
         | Inr (Some u) \<Rightarrow>
             if role_name (u_role u) \<noteq> str_of (lb_role b)
             then (Reply 403 (Message (''Authentication failed. You are not a ''
                                        @ str_of (lb_role b) @ ''.'')), session)
             else (Reply 200 (Data (without_password u)), Some (u_id u))))"

section \<open>server/auth.ts: POST /api/forgot-password\<close>

text \<open>
  \<open>createPasswordResetToken\<close>: \<open>usedAt\<close> is left null and \<open>createdAt\<close> is the
  default, now. The column \<open>token\<close> is unique: inserting a token that is in the
  table already fails, like an id that is.
\<close>

definition createPasswordResetToken ::
  "store \<Rightarrow> int \<Rightarrow> int \<Rightarrow> string \<Rightarrow> int \<Rightarrow> (js_error + passwordResetToken) \<times> store" where
  "createPasswordResetToken s now userId token expiresAt =
     (if \<not> pg_text token then (Inl DatabaseError, s)
      else if 2147483647 < passwordResetTokens_seq s then (Inl DatabaseError, s)
      else if passwordResetTokens_seq s \<in> set (map t_id (passwordResetTokens s))
              \<or> token \<in> set (map t_token (passwordResetTokens s))
      then (Inl UniqueViolation, s\<lparr>passwordResetTokens_seq := passwordResetTokens_seq s + 1\<rparr>)
      else
        let resetToken = \<lparr>t_id = passwordResetTokens_seq s, t_userId = userId, t_token = token,
              t_expiresAt = expiresAt, t_createdAt = now, t_usedAt = None\<rparr>
        in (Inr resetToken,
            s\<lparr>passwordResetTokens := passwordResetTokens s @ [resetToken],
              passwordResetTokens_seq := passwordResetTokens_seq s + 1\<rparr>))"

record forgot_body =
  fb_email :: jsval
  fb_role :: jsval

definition passwordResetRequestSchema :: "lib \<Rightarrow> forgot_body \<Rightarrow> bool" where
  "passwordResetRequestSchema L b =
     (z_string_email (isEmail L) (fb_email b) \<and> z_enum [''student'', ''proctor''] (fb_role b))"

definition reset_link_sent :: string where
  "reset_link_sent = ''If an account exists with that email, you will receive a password reset link''"

text \<open>
  The handler answers with a reply, the new database and the mail that left, if one
  did: its recipient and the token of its link. A rejected \<open>sendMail\<close> and a failed
  insert are caught and answered 500.
\<close>

definition forgot_password ::
  "lib \<Rightarrow> env \<Rightarrow> store \<Rightarrow> forgot_body \<Rightarrow> unit reply \<times> store \<times> (string \<times> string) option" where
  "forgot_password L e s b =
     (if \<not> passwordResetRequestSchema L b
      then (Reply 400 (MessageErrors ''Invalid request data''), s, None)
      else
        let email = str_of (fb_email b); role = str_of (fb_role b) in
        case getUserByEmail s email of
          Inl err \<Rightarrow>
            (Reply 500 (Message ''Failed to process password reset request''), s, None)
        | Inr None \<Rightarrow> (Reply 200 (Message reset_link_sent), s, None)
        | Inr (Some u) \<Rightarrow>
            if role_name (u_role u) \<noteq> role then (Reply 200 (Message reset_link_sent), s, None)
            else
              (case createPasswordResetToken s (clock e) (u_id u) (randomToken e)
                      (clock e + 3600000) of
                 (Inl err, s') \<Rightarrow>
                   (Reply 500 (Message ''Failed to process password reset request''), s', None)
               | (Inr resetToken, s') \<Rightarrow>
                   if \<not> sendMailOk e
                   then (Reply 500 (Message ''Failed to process password reset request''), s', None)
                   else (Reply 200 (Message reset_link_sent),
                         deleteExpiredTokens s' (clock e), Some (email, randomToken e))))"

section \<open>server/storage.ts: attendance and academic records\<close>

definition getStudentAttendance :: "store \<Rightarrow> int \<Rightarrow> attendanceRow list" where
  "getStudentAttendance s studentId = filter (\<lambda>a. at_studentId a = studentId) (attendance s)"

definition getStudentAcademicRecords :: "store \<Rightarrow> int \<Rightarrow> academicRecord list" where
  "getStudentAcademicRecords s studentId =
     filter (\<lambda>r. ar_studentId r = studentId) (academicRecords s)"

definition getStudentsByProctor :: "store \<Rightarrow> int \<Rightarrow> studentProfile list" where
  "getStudentsByProctor s proctorId =
     (case getProctorProfileById s proctorId of
        None \<Rightarrow> []
      | Some proctorProfile \<Rightarrow>
          filter (\<lambda>p. sp_proctorId p = Some (pp_id proctorProfile)) (studentProfiles s))"

section \<open>Numbers and plain objects of JavaScript\<close>

text \<open>
  A number the server computes is a double. Counters are natural numbers, which
  doubles hold exactly; a value computed by division or \<open>toFixed\<close> is kept as the
  expression that computes it, each operation meaning the IEEE-754 one:
  \<open>ToFixed2 x\<close> is \<open>Number(x.toFixed(2))\<close>.
\<close>

datatype jsnum = Lit rat | Plus jsnum jsnum | Times jsnum jsnum | Divide jsnum jsnum
  | ToFixed2 jsnum

text \<open>
  The handlers use an object literal \<open>{}\<close> as a dictionary. Its own properties are
  an association list in the order of their creation. A read \<open>obj[k]\<close> that finds no
  own property goes on to \<open>Object.prototype\<close>, whose members are these:
\<close>

definition object_prototype_keys :: "string list" where
  "object_prototype_keys =
     [''constructor'', ''__defineGetter__'', ''__defineSetter__'', ''hasOwnProperty'',
      ''__lookupGetter__'', ''__lookupSetter__'', ''isPrototypeOf'',
      ''propertyIsEnumerable'', ''toString'', ''valueOf'', ''__proto__'',
      ''toLocaleString'']"

datatype 'v property = Own 'v | Inherited | Missing

definition get_property :: "(string \<times> 'v) list \<Rightarrow> string \<Rightarrow> 'v property" where
  "get_property obj k =
     (case map_of obj k of
        Some v \<Rightarrow> Own v
      | None \<Rightarrow> if k \<in> set object_prototype_keys then Inherited else Missing)"

text \<open>
  \<open>Object.keys\<close> and \<open>Object.entries\<close> list the own properties: first the keys
  that are array indices (canonical decimal numerals below \<open>2^32 - 1\<close>) in ascending
  order, then the other keys in the order of their creation.
\<close>

definition is_digit :: "char \<Rightarrow> bool" where
  "is_digit c = (c \<in> set ''0123456789'')"

definition digits_value :: "string \<Rightarrow> int" where
  "digits_value k = foldl (\<lambda>n c. 10 * n + (of_char c - 48)) 0 k"

definition is_array_index :: "string \<Rightarrow> bool" where
  "is_array_index k =
     (k \<noteq> [] \<and> list_all is_digit k \<and> (k = ''0'' \<or> hd k \<noteq> CHR ''0'')
      \<and> digits_value k < 4294967295)"

definition own_entries :: "(string \<times> 'v) list \<Rightarrow> (string \<times> 'v) list" where
  "own_entries obj =
     sort_key (\<lambda>p. digits_value (fst p)) (filter (\<lambda>p. is_array_index (fst p)) obj)
     @ filter (\<lambda>p. \<not> is_array_index (fst p)) obj"

section \<open>server/routes.ts: GET /api/student/attendance\<close>

record courseStats =
  c_total :: nat
  c_present :: nat
  c_percentage :: jsnum

text \<open>
  The body of the \<open>forEach\<close>. When the read \<open>courseAttendance[record.courseName]\<close>
  finds an inherited member, the test \<open>!courseAttendance[...]\<close> is false, no own
  property is created, and the two increments land on the inherited member: the object
  is as before.
\<close>

definition count_record :: "(string \<times> courseStats) list \<Rightarrow> attendanceRow \<Rightarrow> (string \<times> courseStats) list" where
  "count_record courseAttendance record =
     (let name = at_courseName record; seen = (if at_isPresent record then 1 else 0) in
      case get_property courseAttendance name of
        Missing \<Rightarrow>
          AList.update name \<lparr>c_total = 1, c_present = seen, c_percentage = Lit 0\<rparr> courseAttendance
      | Own c \<Rightarrow>
          AList.update name (c\<lparr>c_total := c_total c + 1, c_present := c_present c + seen\<rparr>)
            courseAttendance
      | Inherited \<Rightarrow> courseAttendance)"

text \<open>\<open>total > 0 ? Number(((present / total) * 100).toFixed(2)) : 0\<close>\<close>

definition percentage_of :: "nat \<Rightarrow> nat \<Rightarrow> jsnum" where
  "percentage_of p t =
     (if 0 < t then ToFixed2 (Times (Divide (Lit (of_nat p)) (Lit (of_nat t))) (Lit 100))
      else Lit 0)"

record attendanceReport =
  rep_records :: "attendanceRow list"
  rep_courseWise :: "(string \<times> courseStats) list"
  rep_overall :: courseStats

definition attendance_report :: "attendanceRow list \<Rightarrow> attendanceReport" where
  "attendance_report rows =
     (let courseAttendance = foldl count_record [] rows;
          courses = own_entries courseAttendance;
          overallPresent = sum_list (map (\<lambda>(course, c). c_present c) courses);
          overallTotal = sum_list (map (\<lambda>(course, c). c_total c) courses)
      in \<lparr>rep_records = rows,
          rep_courseWise =
            map (\<lambda>(course, c). (course, c\<lparr>c_percentage := percentage_of (c_present c) (c_total c)\<rparr>))
              courses,
          rep_overall = \<lparr>c_total = overallTotal, c_present = overallPresent,
                          c_percentage = percentage_of overallPresent overallTotal\<rparr>\<rparr>)"

definition student_attendance :: "store \<Rightarrow> user option \<Rightarrow> attendanceReport reply" where
  "student_attendance s req_user =
     (case req_user of
        None \<Rightarrow> unauthorized
      | Some u \<Rightarrow>
          if u_role u \<noteq> Student then access_forbidden
          else
            (case getStudentProfile s (u_id u) of
               None \<Rightarrow> Reply 404 (Message ''Student profile not found'')
             | Some studentProfile \<Rightarrow>
                 Reply 200 (Data (attendance_report
                                    (getStudentAttendance s (sp_id studentProfile))))))"

text \<open>GET /api/proctor/students: the attendance of one student, over all of the rows.\<close>

definition attendance_summary :: "attendanceRow list \<Rightarrow> courseStats" where
  "attendance_summary attendanceRecords =
     (let totalClasses = length attendanceRecords;
          presentClasses = length (filter at_isPresent attendanceRecords)
      in \<lparr>c_total = totalClasses, c_present = presentClasses,
          c_percentage = percentage_of presentClasses totalClasses\<rparr>)"

section \<open>server/routes.ts: GET /api/proctor/academic\<close>

text \<open>\<open>mark ?? 0\<close>\<close>

definition mark :: "rat option \<Rightarrow> jsnum" where
  "mark m = (case m of None \<Rightarrow> Lit 0 | Some v \<Rightarrow> Lit v)"

definition marks_total :: "academicRecord \<Rightarrow> jsnum" where
  "marks_total r =
     Plus (Plus (Plus (mark (ar_internalMarks r)) (mark (ar_quizMarks r)))
             (mark (ar_projectMarks r)))
       (mark (ar_semesterMarks r))"

text \<open>
  The sum the claim speaks of: the marks of a non-empty list of records, added up in
  the order of the list.
\<close>

definition sum_of_marks :: "academicRecord list \<Rightarrow> jsnum" where
  "sum_of_marks rs = foldl (\<lambda>t r. Plus t (marks_total r)) (marks_total (hd rs)) (tl rs)"

record subjectGroup =
  totalScore :: jsnum
  recordCount :: nat

text \<open>
  The body of the \<open>reduce\<close>. On an inherited member the test \<open>!acc[...]\<close> is
  false and the two updates of the else branch land on that member.
\<close>

definition group_record :: "(string \<times> subjectGroup) list \<Rightarrow> academicRecord \<Rightarrow> (string \<times> subjectGroup) list" where
  "group_record acc record =
     (case get_property acc (ar_courseName record) of
        Missing \<Rightarrow>
          AList.update (ar_courseName record)
            \<lparr>totalScore = marks_total record, recordCount = 1\<rparr> acc
      | Own g \<Rightarrow>
          AList.update (ar_courseName record)
            \<lparr>totalScore = Plus (totalScore g) (marks_total record),
             recordCount = recordCount g + 1\<rparr> acc
      | Inherited \<Rightarrow> acc)"

definition subject_averages :: "academicRecord list \<Rightarrow> (string \<times> jsnum) list" where
  "subject_averages allRecords =
     map (\<lambda>(subject, g). (subject, ToFixed2 (Divide (totalScore g) (Lit (of_nat (recordCount g))))))
       (own_entries (foldl group_record [] allRecords))"

definition proctor_academic :: "store \<Rightarrow> user option \<Rightarrow> (string \<times> jsnum) list reply" where
  "proctor_academic s req_user =
     (case req_user of
        None \<Rightarrow> unauthorized
      | Some u \<Rightarrow>
          if u_role u \<noteq> Proctor then access_forbidden
          else
            (case getProctorProfile s (u_id u) of
               None \<Rightarrow> Reply 404 (Message ''Proctor profile not found'')
             | Some proctorProfile \<Rightarrow>
                 let students = getStudentsByProctor s (pp_id proctorProfile);
                     academicRecords = map (\<lambda>student. getStudentAcademicRecords s (sp_id student))
                                         students;
                     allRecords = concat academicRecords
                 in Reply 200 (Data (subject_averages allRecords))))"

text \<open>A database for the examples: one student, one proctor, their profiles.\<close>

definition alice :: user where
  "alice = \<lparr>u_id = 1, u_email = ''alice@uni.edu'', u_username = ''alice'',
            u_password = ''secret1#s0.s0'', u_role = Student, u_name = ''Alice'', u_createdAt = 0\<rparr>"

definition bob :: user where
  "bob = \<lparr>u_id = 2, u_email = ''bob@uni.edu'', u_username = ''bob'',
          u_password = ''hunter22#s1.s1'', u_role = Proctor, u_name = ''Bob'', u_createdAt = 0\<rparr>"

definition empty_store :: store where
  "empty_store = \<lparr>users = [], studentProfiles = [], proctorProfiles = [], attendance = [],
     academicRecords = [], queries = [], queryResponses = [], passwordResetTokens = [],
     queries_seq = 1, queryResponses_seq = 1, passwordResetTokens_seq = 1\<rparr>"

definition alice_profile :: studentProfile where
  "alice_profile = \<lparr>sp_id = 10, sp_userId = 1, sp_studentId = ''S-1'',
        sp_department = ''CS'', sp_proctorId = Some 20, sp_semester = 3, sp_cgpa = Some 0\<rparr>"

definition bob_profile :: proctorProfile where
  "bob_profile = \<lparr>pp_id = 20, pp_userId = 2, pp_facultyId = ''F-1'',
        pp_department = ''CS'', pp_phone = None, pp_designation = ''Professor''\<rparr>"

definition campus :: store where
  "campus = empty_store\<lparr>users := [alice, bob], studentProfiles := [alice_profile],
     proctorProfiles := [bob_profile]\<rparr>"

definition test_lib :: lib where
  "test_lib = \<lparr>scrypt = (\<lambda>password salt. password @ ''#'' @ salt),
                isEmail = (\<lambda>s. CHR ''@'' \<in> set s)\<rparr>"

definition test_env :: env where
  "test_env = \<lparr>clock = 1000, randomSalt = ''s9'', randomToken = ''r4nd0m'', sendMailOk = True\<rparr>"

text \<open>A token issued at time 0 for Alice, valid for one hour, never used.\<close>

definition fresh_token :: passwordResetToken where
  "fresh_token = \<lparr>t_id = 1, t_userId = 1, t_token = ''tok'', t_expiresAt = 3600000,
                    t_createdAt = 0, t_usedAt = None\<rparr>"

text \<open>
  A pending query of Alice to her proctor Bob, and two users who are no party to it:
  the student Carol and the proctor Dave.
\<close>

definition q7 :: query where
  "q7 = \<lparr>q_id = 7, q_studentId = 1, q_proctorId = 2, q_subject = ''Grade issue'',
          q_description = ''My internal marks seem wrong'', q_status = Pending,
          q_createdAt = 100, q_updatedAt = 100\<rparr>"

definition carol :: user where
  "carol = \<lparr>u_id = 3, u_email = ''carol@uni.edu'', u_username = ''carol'',
          u_password = ''abc#s2.s2'', u_role = Student, u_name = ''Carol'', u_createdAt = 0\<rparr>"

definition dave :: user where
  "dave = \<lparr>u_id = 4, u_email = ''dave@uni.edu'', u_username = ''dave'',
          u_password = ''opensesame#s3.s3'', u_role = Proctor, u_name = ''Dave'', u_createdAt = 0\<rparr>"

definition campus_q :: store where
  "campus_q = campus\<lparr>users := [alice, bob, carol, dave], queries := [q7]\<rparr>"

text \<open>
  Attendance of Alice: two classes of Algorithms, one of them missed, and two classes,
  both attended, of a course that is named ``constructor''.
\<close>

definition att :: "int \<Rightarrow> string \<Rightarrow> bool \<Rightarrow> attendanceRow" where
  "att i course here = \<lparr>at_id = i, at_studentId = 10, at_courseId = ''C'',
     at_courseName = course, at_date = 0, at_isPresent = here\<rparr>"

definition alice_rows :: "attendanceRow list" where
  "alice_rows = [att 1 ''Algorithms'' True, att 2 ''constructor'' True,
                 att 3 ''Algorithms'' False, att 4 ''constructor'' True]"

text \<open>Her marks in the same two courses; the project of Algorithms is not marked yet.\<close>

definition rec_algorithms :: academicRecord where
  "rec_algorithms = \<lparr>ar_id = 1, ar_studentId = 10, ar_courseId = ''CS103'',
     ar_courseName = ''Algorithms'', ar_semester = 3, ar_internalMarks = Some 80,
     ar_quizMarks = Some 70, ar_projectMarks = None, ar_semesterMarks = Some 90,
     ar_CGPA = Some 8\<rparr>"

definition rec_constructor :: academicRecord where
  "rec_constructor = \<lparr>ar_id = 2, ar_studentId = 10, ar_courseId = ''CS104'',
     ar_courseName = ''constructor'', ar_semester = 3, ar_internalMarks = Some 75,
     ar_quizMarks = Some 85, ar_projectMarks = Some 95, ar_semesterMarks = Some 65,
     ar_CGPA = Some 8\<rparr>"

definition campus_records :: store where
  "campus_records = campus\<lparr>attendance := alice_rows,
     academicRecords := [rec_algorithms, rec_constructor]\<rparr>"

lemmas ex_defs = campus_q_def campus_def empty_store_def q7_def alice_def bob_def carol_def
  dave_def test_env_def alice_profile_def bob_profile_def

section \<open>Password reset: redemption\<close>

text \<open>An update of the rows with a given key.\<close>

lemma find_map_update:
  assumes "\<And>q. key (g q) = key q"
  shows "find (\<lambda>q. key q = i) (map (\<lambda>q. if key q = i then g q else q) qs)
         = map_option g (find (\<lambda>q. key q = i) qs)"
  using assms by (induction qs) auto

text \<open>
  A token none of whose rows has ever been used is not found, whatever the clock, and
  its redemption is refused. A redemption that succeeds has found a row with
  \<open>usedAt\<close> set; it stores the hash of the new password and marks the token used.
\<close>

lemma never_used_token_not_found:
  assumes "pg_text token"
    and "\<forall>t \<in> set (passwordResetTokens s). t_token t = token \<longrightarrow> t_usedAt t = None"
  shows "getPasswordResetToken s now token = Inr None"
  using assms by (auto simp: getPasswordResetToken_def find_None_iff)

lemma reset_password_never_used:
  assumes "passwordResetSchema b" and "pg_text (str_of (rb_token b))"
    and "\<forall>t \<in> set (passwordResetTokens s). t_token t = str_of (rb_token b) \<longrightarrow> t_usedAt t = None"
  shows "reset_password L e s b = (Reply 400 (Message ''Invalid or expired reset token''), s)"
  using assms(1) never_used_token_not_found [OF assms(2,3)]
  by (simp add: reset_password_def)

lemma reset_password_success:
  assumes "fst (reset_password L e s b) = Reply 200 m"
  shows "\<exists>rt \<in> set (passwordResetTokens s).
           t_token rt = str_of (rb_token b) \<and> t_usedAt rt \<noteq> None \<and> clock e < t_expiresAt rt
           \<and> snd (reset_password L e s b)
               = markTokenAsUsed
                   (snd (updateUserPassword s (t_userId rt)
                           (hashPassword L (randomSalt e) (str_of (rb_newPassword b)))))
                   (clock e) (str_of (rb_token b))"
proof (cases "getPasswordResetToken s (clock e) (str_of (rb_token b))")
  case (Inl err)
  then show ?thesis
    using assms by (simp add: reset_password_def split: if_splits)
next
  case (Inr found)
  show ?thesis
  proof (cases found)
    case None
    then show ?thesis
      using assms Inr by (simp add: reset_password_def split: if_splits)
  next
    case (Some rt)
    then have "find (\<lambda>t. t_token t = str_of (rb_token b) \<and> t_usedAt t \<noteq> None
                          \<and> clock e < t_expiresAt t) (passwordResetTokens s) = Some rt"
      using Inr by (simp add: getPasswordResetToken_def split: if_splits)
    then have mem: "rt \<in> set (passwordResetTokens s)"
      and props: "t_token rt = str_of (rb_token b)" "t_usedAt rt \<noteq> None"
        "clock e < t_expiresAt rt"
      by (auto simp: find_Some_iff)
    have "snd (reset_password L e s b)
               = markTokenAsUsed
                   (snd (updateUserPassword s (t_userId rt)
                           (hashPassword L (randomSalt e) (str_of (rb_newPassword b)))))
                   (clock e) (str_of (rb_token b))"
      using assms Inr Some
      by (auto simp: reset_password_def Let_def split: if_splits prod.splits option.splits)
    then show ?thesis using mem props by blast
  qed
qed

lemma updateUserPassword_sets_hash:
  "getUser s userId = Some u \<Longrightarrow>
   map_option u_password (getUser (snd (updateUserPassword s userId h)) userId) = Some h"
  by (simp add: updateUserPassword_def getUser_def Let_def find_map_update)

text \<open>
  C1. Redemption should succeed exactly for a stored token that is unused and not
  expired. The lookup asks for \<open>usedAt\<close> to be not null: the never-used, unexpired
  token of Alice is refused with ``Invalid or expired reset token'' and nothing is
  stored, and once \<open>usedAt\<close> is set the same token is redeemed.
\<close>

theorem reset_password_refuses_unused_token:
  "reset_password test_lib test_env (campus\<lparr>passwordResetTokens := [fresh_token]\<rparr>)
     \<lparr>rb_token = JStr ''tok'', rb_newPassword = JStr ''secret1''\<rparr>
   = (Reply 400 (Message ''Invalid or expired reset token''),
      campus\<lparr>passwordResetTokens := [fresh_token]\<rparr>)
   \<and> fst (reset_password test_lib test_env
        (campus\<lparr>passwordResetTokens := [fresh_token\<lparr>t_usedAt := Some 500\<rparr>]\<rparr>)
        \<lparr>rb_token = JStr ''tok'', rb_newPassword = JStr ''secret1''\<rparr>)
   = Reply 200 (Message ''Password has been reset successfully'')"
  by (simp add: reset_password_def passwordResetSchema_def getPasswordResetToken_def
      pg_text_def campus_def empty_store_def fresh_token_def test_env_def
      updateUserPassword_def getUser_def alice_def bob_def Let_def)

section \<open>The query workflow\<close>

lemma getQueryById_updateQueryStatus:
  "getQueryById s i = Inr (Some q) \<Longrightarrow>
   getQueryById (snd (updateQueryStatus s now i st)) i
   = Inr (Some (q\<lparr>q_status := st, q_updatedAt := now\<rparr>))"
  by (auto simp: updateQueryStatus_def getQueryById_def Let_def find_map_update
      split: if_splits)

lemma getQueryById_same_queries:
  "queries s' = queries s \<Longrightarrow> getQueryById s' i = getQueryById s i"
  by (simp add: getQueryById_def)

lemma queries_createQueryResponse:
  "queries (snd (createQueryResponse s now qid uid txt)) = queries s"
  by (simp add: createQueryResponse_def Let_def)

lemma createQueryResponse_accepted:
  assumes "createQueryResponse s now qid uid txt = (Inr newResponse, s')"
  shows "s' = s\<lparr>queryResponses := queryResponses s @ [newResponse],
                 queryResponses_seq := queryResponses_seq s + 1\<rparr>
       \<and> newResponse = \<lparr>qr_id = queryResponses_seq s, qr_queryId = qid, qr_userId = uid,
                         qr_response = txt, qr_createdAt = now\<rparr>"
  using assms by (auto simp: createQueryResponse_def Let_def split: if_splits)

text \<open>
  When a response is stored: its text holds no U+0000 and the sequence of the table
  still has an id that no row bears.
\<close>

lemma createQueryResponse_when_accepted:
  assumes "pg_text txt" and "queryResponses_seq s \<le> 2147483647"
    and "queryResponses_seq s \<notin> qr_id ` set (queryResponses s)"
  shows "fst (createQueryResponse s now qid uid txt)
         = Inr \<lparr>qr_id = queryResponses_seq s, qr_queryId = qid, qr_userId = uid,
                 qr_response = txt, qr_createdAt = now\<rparr>"
  using assms by (simp add: createQueryResponse_def Let_def)

text \<open>
  C3. Whenever POST /api/proctor/queries/:id/respond answers 201 on a pending query,
  the response it returns has been appended and the query is \<open>in_progress\<close>; whenever
  POST /api/queries/:id/respond answers 201 on the same pending query, the response has
  been appended and the table of queries, and so the status \<open>pending\<close>, is as it was.
\<close>

theorem respond_endpoints_asymmetry:
  assumes "getQueryById s qid = Inr (Some q)" and "q_status q = Pending"
  shows "(fst (proctor_respond e s req_user (Some qid) r) = Reply 201 (Data newResponse) \<longrightarrow>
            getQueryById (snd (proctor_respond e s req_user (Some qid) r)) qid
              = Inr (Some (q\<lparr>q_status := InProgress, q_updatedAt := clock e\<rparr>))
          \<and> queryResponses (snd (proctor_respond e s req_user (Some qid) r))
              = queryResponses s @ [newResponse])
       \<and> (fst (respond e s req_user (Some qid) r) = Reply 201 (Data newResponse) \<longrightarrow>
            queries (snd (respond e s req_user (Some qid) r)) = queries s
          \<and> getQueryById (snd (respond e s req_user (Some qid) r)) qid = Inr (Some q)
          \<and> queryResponses (snd (respond e s req_user (Some qid) r))
              = queryResponses s @ [newResponse])"
proof -
  have p: "getQueryById (snd (proctor_respond e s req_user (Some qid) r)) qid
              = Inr (Some (q\<lparr>q_status := InProgress, q_updatedAt := clock e\<rparr>))
          \<and> queryResponses (snd (proctor_respond e s req_user (Some qid) r))
              = queryResponses s @ [newResponse]"
    if ok: "fst (proctor_respond e s req_user (Some qid) r) = Reply 201 (Data newResponse)"
  proof -
    obtain u where u: "req_user = Some u"
      using ok by (cases req_user) (simp_all add: proctor_respond_def unauthorized_def)
    obtain res s1 where c: "createQueryResponse s (clock e) qid (u_id u) (str_of r) = (res, s1)"
      by (cases "createQueryResponse s (clock e) qid (u_id u) (str_of r)")
    have ins: "res = Inr newResponse"
      and run: "snd (proctor_respond e s req_user (Some qid) r)
                = snd (updateQueryStatus s1 (clock e) qid InProgress)"
      using ok u c assms
      by (auto simp: proctor_respond_def access_forbidden_def split: if_splits sum.splits)
    have s1: "s1 = s\<lparr>queryResponses := queryResponses s @ [newResponse],
                       queryResponses_seq := queryResponses_seq s + 1\<rparr>"
      using createQueryResponse_accepted [of s "clock e" qid "u_id u" "str_of r" newResponse s1]
        c ins by simp
    have look: "getQueryById s1 qid = Inr (Some q)"
      using assms(1) getQueryById_same_queries [of s1 s qid] by (simp add: s1)
    show ?thesis
      using getQueryById_updateQueryStatus [OF look, of "clock e" InProgress]
      by (simp add: run) (simp add: s1 updateQueryStatus_def Let_def)
  qed
  have g: "queries (snd (respond e s req_user (Some qid) r)) = queries s
          \<and> getQueryById (snd (respond e s req_user (Some qid) r)) qid = Inr (Some q)
          \<and> queryResponses (snd (respond e s req_user (Some qid) r))
              = queryResponses s @ [newResponse]"
    if ok: "fst (respond e s req_user (Some qid) r) = Reply 201 (Data newResponse)"
  proof -
    obtain u where u: "req_user = Some u"
      using ok by (cases req_user) (simp_all add: respond_def unauthorized_def)
    obtain res s1 where c: "createQueryResponse s (clock e) qid (u_id u) (str_of r) = (res, s1)"
      by (cases "createQueryResponse s (clock e) qid (u_id u) (str_of r)")
    have ins: "res = Inr newResponse"
      and run: "snd (respond e s req_user (Some qid) r) = s1"
      using ok u c assms
      by (auto simp: respond_def split: if_splits sum.splits)
    have s1: "s1 = s\<lparr>queryResponses := queryResponses s @ [newResponse],
                       queryResponses_seq := queryResponses_seq s + 1\<rparr>"
      using createQueryResponse_accepted [of s "clock e" qid "u_id u" "str_of r" newResponse s1]
        c ins by simp
    show ?thesis
      using assms(1) getQueryById_same_queries [of s1 s qid] by (simp add: run s1)
  qed
  show ?thesis using p g by blast
qed

theorem respond_endpoints_asymmetry_witness:
  "getQueryById campus_q 7 = Inr (Some q7) \<and> q_status q7 = Pending
   \<and> fst (proctor_respond test_env campus_q (Some bob) (Some 7) (JStr ''Please come by''))
       = Reply 201 (Data \<lparr>qr_id = 1, qr_queryId = 7, qr_userId = 2,
            qr_response = ''Please come by'', qr_createdAt = 1000\<rparr>)
   \<and> getQueryById
        (snd (proctor_respond test_env campus_q (Some bob) (Some 7) (JStr ''Please come by''))) 7
       = Inr (Some (q7\<lparr>q_status := InProgress, q_updatedAt := 1000\<rparr>))
   \<and> fst (respond test_env campus_q (Some alice) (Some 7) (JStr ''Please come by''))
       = Reply 201 (Data \<lparr>qr_id = 1, qr_queryId = 7, qr_userId = 1,
            qr_response = ''Please come by'', qr_createdAt = 1000\<rparr>)
   \<and> getQueryById
        (snd (respond test_env campus_q (Some alice) (Some 7) (JStr ''Please come by''))) 7
       = Inr (Some q7)"
proof -
  have q: "getQueryById campus_q 7 = Inr (Some q7)" "q_status q7 = Pending"
    by (simp_all add: ex_defs getQueryById_def int4_def)
  have p: "fst (proctor_respond test_env campus_q (Some bob) (Some 7) (JStr ''Please come by''))
       = Reply 201 (Data \<lparr>qr_id = 1, qr_queryId = 7, qr_userId = 2,
            qr_response = ''Please come by'', qr_createdAt = 1000\<rparr>)"
    by (simp add: proctor_respond_def q(1) createQueryResponse_def pg_text_def Let_def)
       (simp add: ex_defs)
  have g: "fst (respond test_env campus_q (Some alice) (Some 7) (JStr ''Please come by''))
       = Reply 201 (Data \<lparr>qr_id = 1, qr_queryId = 7, qr_userId = 1,
            qr_response = ''Please come by'', qr_createdAt = 1000\<rparr>)"
    by (simp add: respond_def q(1) createQueryResponse_def pg_text_def Let_def)
       (simp add: ex_defs)
  show ?thesis
    using q p g
      respond_endpoints_asymmetry [OF q, of test_env "Some bob" "JStr ''Please come by''"
        "\<lparr>qr_id = 1, qr_queryId = 7, qr_userId = 2,
            qr_response = ''Please come by'', qr_createdAt = 1000\<rparr>"]
      respond_endpoints_asymmetry [OF q, of test_env "Some alice" "JStr ''Please come by''"
        "\<lparr>qr_id = 1, qr_queryId = 7, qr_userId = 1,
            qr_response = ''Please come by'', qr_createdAt = 1000\<rparr>"]
    by (simp add: test_env_def)
qed

text \<open>
  C6, as stated, fails where the body check comes first: Carol, no party to query 7,
  posts a response without text and is answered 400, and Dave, a proctor but not the
  proctor of query 7, sends a status that is none of the four and is answered 400. In
  both cases nothing is stored.
\<close>

theorem outsider_invalid_body_counterexample:
  "getQueryById campus_q 7 = Inr (Some q7)
   \<and> u_id carol \<noteq> q_studentId q7 \<and> u_id carol \<noteq> q_proctorId q7
   \<and> respond test_env campus_q (Some carol) (Some 7) JUndefined
       = (Reply 400 (Message ''Invalid response data''), campus_q)
   \<and> u_id dave \<noteq> q_studentId q7 \<and> u_id dave \<noteq> q_proctorId q7
   \<and> update_status test_env campus_q (Some dave) (Some 7) (JStr ''done'')
       = (Reply 400 (Message ''Invalid status''), campus_q)"
  by (simp add: ex_defs getQueryById_def int4_def respond_def update_status_def)

text \<open>
  C6, amended. On an existing query, a user who is neither its student nor its proctor
  is answered 403 by the view and, when the body holds a response text, by the shared
  respond endpoint; a body without one is answered 400. On the two proctor endpoints
  every user other than the query's proctor, its student included, is answered 403 by
  the role gate or by the party check, unless a proctor's body fails its check, which
  is answered 400. No request of these changes the database.
\<close>

theorem outsiders_are_forbidden:
  assumes "getQueryById s qid = Inr (Some q)"
  shows "(u_id u \<noteq> q_studentId q \<and> u_id u \<noteq> q_proctorId q \<longrightarrow>
            view_query s (Some u) (Some qid)
              = (Reply 403 (Message ''You do not have permission to view this query''), s)
          \<and> respond e s (Some u) (Some qid) r
              = (if z_string r
                 then Reply 403 (Message ''You do not have permission to respond to this query'')
                 else Reply 400 (Message ''Invalid response data''), s))
       \<and> (u_id u \<noteq> q_proctorId q \<longrightarrow>
            proctor_respond e s (Some u) (Some qid) r
              = (if u_role u \<noteq> Proctor then Reply 403 (Message ''Access forbidden'')
                 else if z_string r then Reply 403 (Message ''You cannot respond to this query'')
                 else Reply 400 (Message ''Invalid response data''), s)
          \<and> update_status e s (Some u) (Some qid) st
              = (if u_role u \<noteq> Proctor then Reply 403 (Message ''Access forbidden'')
                 else if parse_status st = None then Reply 400 (Message ''Invalid status'')
                 else Reply 403 (Message ''You cannot update this query''), s))"
proof -
  have v: "view_query s (Some u) (Some qid)
             = (Reply 403 (Message ''You do not have permission to view this query''), s)"
    if "u_id u \<noteq> q_studentId q" "u_id u \<noteq> q_proctorId q"
    using assms that by (auto simp: view_query_def)
  have g: "respond e s (Some u) (Some qid) r
              = (if z_string r
                 then Reply 403 (Message ''You do not have permission to respond to this query'')
                 else Reply 400 (Message ''Invalid response data''), s)"
    if "u_id u \<noteq> q_studentId q" "u_id u \<noteq> q_proctorId q"
    using assms that by (auto simp: respond_def)
  have p: "proctor_respond e s (Some u) (Some qid) r
              = (if u_role u \<noteq> Proctor then Reply 403 (Message ''Access forbidden'')
                 else if z_string r then Reply 403 (Message ''You cannot respond to this query'')
                 else Reply 400 (Message ''Invalid response data''), s)"
    if "u_id u \<noteq> q_proctorId q"
    using assms that by (auto simp: proctor_respond_def access_forbidden_def)
  have t: "update_status e s (Some u) (Some qid) st
              = (if u_role u \<noteq> Proctor then Reply 403 (Message ''Access forbidden'')
                 else if parse_status st = None then Reply 400 (Message ''Invalid status'')
                 else Reply 403 (Message ''You cannot update this query''), s)"
    if "u_id u \<noteq> q_proctorId q"
    using assms that by (auto simp: update_status_def access_forbidden_def split: option.splits)
  show ?thesis using v g p t by blast
qed

theorem outsiders_are_forbidden_witness:
  "getQueryById campus_q 7 = Inr (Some q7)
   \<and> view_query campus_q (Some carol) (Some 7)
       = (Reply 403 (Message ''You do not have permission to view this query''), campus_q)
   \<and> respond test_env campus_q (Some carol) (Some 7) (JStr ''hello'')
       = (Reply 403 (Message ''You do not have permission to respond to this query''), campus_q)
   \<and> proctor_respond test_env campus_q (Some dave) (Some 7) (JStr ''hello'')
       = (Reply 403 (Message ''You cannot respond to this query''), campus_q)
   \<and> update_status test_env campus_q (Some dave) (Some 7) (JStr ''closed'')
       = (Reply 403 (Message ''You cannot update this query''), campus_q)
   \<and> update_status test_env campus_q (Some alice) (Some 7) (JStr ''closed'')
       = (Reply 403 (Message ''Access forbidden''), campus_q)"
proof -
  have q: "getQueryById campus_q 7 = Inr (Some q7)"
    by (simp add: ex_defs getQueryById_def int4_def)
  have c: "u_id carol \<noteq> q_studentId q7 \<and> u_id carol \<noteq> q_proctorId q7"
    by (simp add: ex_defs)
  have d: "u_id dave \<noteq> q_proctorId q7" "u_role dave = Proctor"
    by (simp_all add: ex_defs)
  have a: "u_id alice \<noteq> q_proctorId q7" "u_role alice = Student"
    by (simp_all add: ex_defs)
  show ?thesis
    using q c d a
      outsiders_are_forbidden [OF q, of carol test_env "JStr ''hello''" "JStr ''closed''"]
      outsiders_are_forbidden [OF q, of dave test_env "JStr ''hello''" "JStr ''closed''"]
      outsiders_are_forbidden [OF q, of alice test_env "JStr ''hello''" "JStr ''closed''"]
    by simp
qed

text \<open>
  C8, as stated, fails on the proctor endpoints, on a body that fails its check and on
  an id that is no \<open>integer\<close> of the database. For the missing query 99 the student
  Alice is answered 403 by the role gate of the status update and of the proctor's
  respond endpoint, and Carol's response without text is answered 400: the lookup
  comes after both. For the missing id \<open>2^31\<close> the lookup itself fails, and Carol's
  view is answered 500.
\<close>

theorem role_gate_precedes_lookup_counterexample:
  "getQueryById campus_q 99 = Inr None
   \<and> update_status test_env campus_q (Some alice) (Some 99) (JStr ''resolved'')
       = (Reply 403 (Message ''Access forbidden''), campus_q)
   \<and> proctor_respond test_env campus_q (Some alice) (Some 99) (JStr ''hello'')
       = (Reply 403 (Message ''Access forbidden''), campus_q)
   \<and> respond test_env campus_q (Some carol) (Some 99) JNull
       = (Reply 400 (Message ''Invalid response data''), campus_q)
   \<and> 2147483648 \<notin> q_id ` set (queries campus_q)
   \<and> view_query campus_q (Some carol) (Some 2147483648)
       = (Reply 500 (Message ''Failed to fetch query details''), campus_q)"
  by (simp add: ex_defs getQueryById_def int4_def respond_def update_status_def
      proctor_respond_def view_query_def access_forbidden_def)

text \<open>
  C8, amended. For a query id that is not in the table and lies in the range of the
  id column, an authenticated user is answered 404 by the view, by the shared respond
  endpoint when the body holds a response text, and by the two proctor endpoints when
  the user is a proctor and the body passes its check, whoever the user is otherwise.
  A student is answered 403 on the proctor endpoints and a failing body 400, before the
  lookup; an id outside the range makes the lookup fail and is answered 500. The
  database is unchanged.
\<close>

theorem missing_query_is_not_found:
  assumes "qid \<notin> q_id ` set (queries s)"
  shows "view_query s (Some u) (Some qid)
           = (if int4 qid then Reply 404 (Message ''Query not found'')
              else Reply 500 (Message ''Failed to fetch query details''), s)
       \<and> respond e s (Some u) (Some qid) r
           = (if \<not> z_string r then Reply 400 (Message ''Invalid response data'')
              else if int4 qid then Reply 404 (Message ''Query not found'')
              else Reply 500 (Message ''Failed to create response''), s)
       \<and> proctor_respond e s (Some u) (Some qid) r
           = (if u_role u \<noteq> Proctor then Reply 403 (Message ''Access forbidden'')
              else if \<not> z_string r then Reply 400 (Message ''Invalid response data'')
              else if int4 qid then Reply 404 (Message ''Query not found'')
              else Reply 500 (Message ''Failed to create response''), s)
       \<and> update_status e s (Some u) (Some qid) st
           = (if u_role u \<noteq> Proctor then Reply 403 (Message ''Access forbidden'')
              else if parse_status st = None then Reply 400 (Message ''Invalid status'')
              else if int4 qid then Reply 404 (Message ''Query not found'')
              else Reply 500 (Message ''Failed to update query status''), s)"
proof -
  have "find (\<lambda>q. q_id q = qid) (queries s) = None"
    using assms by (auto simp: find_None_iff)
  then have look: "getQueryById s qid = (if int4 qid then Inr None else Inl DatabaseError)"
    by (simp add: getQueryById_def)
  have v: "view_query s (Some u) (Some qid)
           = (if int4 qid then Reply 404 (Message ''Query not found'')
              else Reply 500 (Message ''Failed to fetch query details''), s)"
    by (simp add: view_query_def look)
  have g: "respond e s (Some u) (Some qid) r
           = (if \<not> z_string r then Reply 400 (Message ''Invalid response data'')
              else if int4 qid then Reply 404 (Message ''Query not found'')
              else Reply 500 (Message ''Failed to create response''), s)"
    by (simp add: respond_def look)
  have p: "proctor_respond e s (Some u) (Some qid) r
           = (if u_role u \<noteq> Proctor then Reply 403 (Message ''Access forbidden'')
              else if \<not> z_string r then Reply 400 (Message ''Invalid response data'')
              else if int4 qid then Reply 404 (Message ''Query not found'')
              else Reply 500 (Message ''Failed to create response''), s)"
    by (simp add: proctor_respond_def access_forbidden_def look)
  have t: "update_status e s (Some u) (Some qid) st
           = (if u_role u \<noteq> Proctor then Reply 403 (Message ''Access forbidden'')
              else if parse_status st = None then Reply 400 (Message ''Invalid status'')
              else if int4 qid then Reply 404 (Message ''Query not found'')
              else Reply 500 (Message ''Failed to update query status''), s)"
    by (auto simp: update_status_def access_forbidden_def look split: option.splits)
  show ?thesis using v g p t by simp
qed

theorem missing_query_is_not_found_witness:
  "99 \<notin> q_id ` set (queries campus_q) \<and> int4 99
   \<and> view_query campus_q (Some carol) (Some 99) = (Reply 404 (Message ''Query not found''), campus_q)
   \<and> respond test_env campus_q (Some carol) (Some 99) (JStr ''hello'')
       = (Reply 404 (Message ''Query not found''), campus_q)
   \<and> proctor_respond test_env campus_q (Some dave) (Some 99) (JStr ''hello'')
       = (Reply 404 (Message ''Query not found''), campus_q)
   \<and> update_status test_env campus_q (Some dave) (Some 99) (JStr ''closed'')
       = (Reply 404 (Message ''Query not found''), campus_q)
   \<and> 2147483648 \<notin> q_id ` set (queries campus_q)
   \<and> update_status test_env campus_q (Some dave) (Some 2147483648) (JStr ''closed'')
       = (Reply 500 (Message ''Failed to update query status''), campus_q)"
proof -
  have q: "99 \<notin> q_id ` set (queries campus_q)" "2147483648 \<notin> q_id ` set (queries campus_q)"
    by (simp_all add: ex_defs)
  have r: "int4 99" "\<not> int4 2147483648"
    by (simp_all add: int4_def)
  have d: "u_role dave = Proctor"
    by (simp add: ex_defs)
  show ?thesis
    using q r d
      missing_query_is_not_found [OF q(1), of carol test_env "JStr ''hello''" "JStr ''closed''"]
      missing_query_is_not_found [OF q(1), of dave test_env "JStr ''hello''" "JStr ''closed''"]
      missing_query_is_not_found [OF q(2), of dave test_env "JStr ''hello''" "JStr ''closed''"]
    by simp
qed

section \<open>Creating a query\<close>

text \<open>
  C2, as stated, fails: \<open>insertQuerySchema\<close> is derived from the table and knows
  no minimum length. Alice, whose proctor is Bob, posts the subject ``ab'' and the
  description ``short''; the answer is 201 and the query is stored.
\<close>

theorem short_query_is_stored_counterexample:
  "create_query test_env campus (Some alice)
     \<lparr>qb_subject = JStr ''ab'', qb_description = JStr ''short'', qb_status = JUndefined\<rparr>
   = (Reply 201 (Data \<lparr>q_id = 1, q_studentId = 1, q_proctorId = 2, q_subject = ''ab'',
          q_description = ''short'', q_status = Pending, q_createdAt = 1000,
          q_updatedAt = 1000\<rparr>),
      campus\<lparr>queries := [\<lparr>q_id = 1, q_studentId = 1, q_proctorId = 2, q_subject = ''ab'',
          q_description = ''short'', q_status = Pending, q_createdAt = 1000,
          q_updatedAt = 1000\<rparr>], queries_seq := 2\<rparr>)"
  by (simp add: create_query_def ex_defs getStudentProfile_def getProctorProfileById_def
      insertQuerySchema_def createQuery_def pg_text_def Let_def)

text \<open>
  C2, amended. For a student with an assigned proctor the request fails with 400
  ``Invalid query data'', and stores nothing, exactly when the subject or the
  description is not a string. Two strings of any length, the empty one included, pass
  the schema: the query is stored and answered 201 when the database takes the row,
  that is, when neither string holds U+0000 and the sequence still has an id that no
  query bears; otherwise the answer is 500 and no query is stored.
\<close>

theorem create_query_checks_strings_only:
  assumes "u_role u = Student" and "getStudentProfile s (u_id u) = Some sp"
    and "sp_proctorId sp = Some pid" and "pid \<noteq> 0"
    and "getProctorProfileById s pid = Some pp"
  shows "(fst (create_query e s (Some u) b) = Reply 400 (MessageErrors ''Invalid query data''))
           = (\<not> (z_string (qb_subject b) \<and> z_string (qb_description b)))
       \<and> (\<not> (z_string (qb_subject b) \<and> z_string (qb_description b)) \<longrightarrow>
            create_query e s (Some u) b = (Reply 400 (MessageErrors ''Invalid query data''), s))
       \<and> (z_string (qb_subject b) \<and> z_string (qb_description b) \<longrightarrow>
            create_query e s (Some u) b
            = (if pg_text (str_of (qb_subject b)) \<and> pg_text (str_of (qb_description b))
                  \<and> queries_seq s \<le> 2147483647 \<and> queries_seq s \<notin> q_id ` set (queries s)
               then (Reply 201 (Data \<lparr>q_id = queries_seq s, q_studentId = u_id u,
                        q_proctorId = pp_userId pp, q_subject = str_of (qb_subject b),
                        q_description = str_of (qb_description b), q_status = Pending,
                        q_createdAt = clock e, q_updatedAt = clock e\<rparr>),
                     s\<lparr>queries := queries s @
                         [\<lparr>q_id = queries_seq s, q_studentId = u_id u,
                           q_proctorId = pp_userId pp, q_subject = str_of (qb_subject b),
                           q_description = str_of (qb_description b), q_status = Pending,
                           q_createdAt = clock e, q_updatedAt = clock e\<rparr>],
                       queries_seq := queries_seq s + 1\<rparr>)
               else (Reply 500 (MessageError ''Failed to create query''),
                     if pg_text (str_of (qb_subject b)) \<and> pg_text (str_of (qb_description b))
                        \<and> queries_seq s \<le> 2147483647
                     then s\<lparr>queries_seq := queries_seq s + 1\<rparr> else s)))"
proof -
  let ?d = "\<lparr>qd_studentId = u_id u, qd_proctorId = pp_userId pp,
             qd_subject = qb_subject b, qd_description = qb_description b\<rparr>"
  have run: "create_query e s (Some u) b
             = (if \<not> insertQuerySchema ?d
                then (Reply 400 (MessageErrors ''Invalid query data''), s)
                else (case createQuery s (clock e) ?d of
                        (Inl err, s') \<Rightarrow> (Reply 500 (MessageError ''Failed to create query''), s')
                      | (Inr newQuery, s') \<Rightarrow> (Reply 201 (Data newQuery), s')))"
    using assms by (simp add: create_query_def Let_def)
  have refused: "create_query e s (Some u) b
                 = (Reply 400 (MessageErrors ''Invalid query data''), s)"
    if "\<not> (z_string (qb_subject b) \<and> z_string (qb_description b))"
    using that unfolding run by (auto simp: insertQuerySchema_def)
  have passed: "create_query e s (Some u) b
            = (if pg_text (str_of (qb_subject b)) \<and> pg_text (str_of (qb_description b))
                  \<and> queries_seq s \<le> 2147483647 \<and> queries_seq s \<notin> q_id ` set (queries s)
               then (Reply 201 (Data \<lparr>q_id = queries_seq s, q_studentId = u_id u,
                        q_proctorId = pp_userId pp, q_subject = str_of (qb_subject b),
                        q_description = str_of (qb_description b), q_status = Pending,
                        q_createdAt = clock e, q_updatedAt = clock e\<rparr>),
                     s\<lparr>queries := queries s @
                         [\<lparr>q_id = queries_seq s, q_studentId = u_id u,
                           q_proctorId = pp_userId pp, q_subject = str_of (qb_subject b),
                           q_description = str_of (qb_description b), q_status = Pending,
                           q_createdAt = clock e, q_updatedAt = clock e\<rparr>],
                       queries_seq := queries_seq s + 1\<rparr>)
               else (Reply 500 (MessageError ''Failed to create query''),
                     if pg_text (str_of (qb_subject b)) \<and> pg_text (str_of (qb_description b))
                        \<and> queries_seq s \<le> 2147483647
                     then s\<lparr>queries_seq := queries_seq s + 1\<rparr> else s))"
    if "z_string (qb_subject b) \<and> z_string (qb_description b)"
    using that unfolding run by (auto simp: insertQuerySchema_def createQuery_def Let_def)
  have iff: "(fst (create_query e s (Some u) b) = Reply 400 (MessageErrors ''Invalid query data''))
           = (\<not> (z_string (qb_subject b) \<and> z_string (qb_description b)))"
    unfolding run by (auto simp: insertQuerySchema_def createQuery_def Let_def)
  show ?thesis using iff refused passed by blast
qed

theorem create_query_checks_strings_only_witness:
  "fst (create_query test_env campus (Some alice)
     \<lparr>qb_subject = JStr '''', qb_description = JStr ''x'', qb_status = JUndefined\<rparr>)
   = Reply 201 (Data \<lparr>q_id = 1, q_studentId = 1, q_proctorId = 2, q_subject = '''',
          q_description = ''x'', q_status = Pending, q_createdAt = 1000,
          q_updatedAt = 1000\<rparr>)
   \<and> create_query test_env campus (Some alice)
     \<lparr>qb_subject = JNum 5, qb_description = JStr ''A long enough description'',
      qb_status = JUndefined\<rparr>
   = (Reply 400 (MessageErrors ''Invalid query data''), campus)
   \<and> create_query test_env campus (Some alice)
     \<lparr>qb_subject = JStr [CHR 0x00], qb_description = JStr ''A long enough description'',
      qb_status = JUndefined\<rparr>
   = (Reply 500 (MessageError ''Failed to create query''), campus)"
proof -
  have h: "u_role alice = Student"
    "getStudentProfile campus (u_id alice) = Some alice_profile"
    "sp_proctorId alice_profile = Some 20" "(20::int) \<noteq> 0"
    "getProctorProfileById campus 20 = Some bob_profile"
    by (simp_all add: ex_defs getStudentProfile_def getProctorProfileById_def)
  have c: "queries_seq campus = 1" "queries campus = []" "u_id alice = 1"
    "pp_userId bob_profile = 2" "clock test_env = 1000"
    by (simp_all add: ex_defs)
  note t = create_query_checks_strings_only [OF h, of test_env]
  show ?thesis
    using t [of "\<lparr>qb_subject = JStr '''', qb_description = JStr ''x'', qb_status = JUndefined\<rparr>"]
      t [of "\<lparr>qb_subject = JNum 5, qb_description = JStr ''A long enough description'',
          qb_status = JUndefined\<rparr>"]
      t [of "\<lparr>qb_subject = JStr [CHR 0x00], qb_description = JStr ''A long enough description'',
          qb_status = JUndefined\<rparr>"]
    by (simp add: c pg_text_def)
qed

text \<open>
  C5. Whenever POST /api/student/queries answers 201, the query it returns is the
  row appended to the table, its status is \<open>pending\<close>, and any other value under
  the key \<open>status\<close> of the body gives the same answer and the same database.
\<close>

theorem created_query_is_pending:
  assumes "create_query e s req_user b = (Reply 201 (Data q), s')"
  shows "q_status q = Pending \<and> queries s' = queries s @ [q]
       \<and> create_query e s req_user (b\<lparr>qb_status := v\<rparr>) = (Reply 201 (Data q), s')"
proof -
  have ind: "create_query e s req_user (b\<lparr>qb_status := v\<rparr>) = create_query e s req_user b"
    by (simp add: create_query_def split: option.splits)
  have "q_status q = Pending \<and> queries s' = queries s @ [q]"
    using assms
    by (auto simp: create_query_def unauthorized_def access_forbidden_def createQuery_def Let_def
        split: option.splits if_splits)
  then show ?thesis using ind assms by simp
qed

theorem created_query_is_pending_witness:
  "create_query test_env campus (Some alice)
     \<lparr>qb_subject = JStr ''Grade issue'', qb_description = JStr ''My internal marks seem wrong'',
      qb_status = JStr ''resolved''\<rparr>
   = (Reply 201 (Data (q7\<lparr>q_id := 1, q_createdAt := 1000, q_updatedAt := 1000\<rparr>)),
      campus\<lparr>queries := [q7\<lparr>q_id := 1, q_createdAt := 1000, q_updatedAt := 1000\<rparr>],
        queries_seq := 2\<rparr>)
   \<and> q_status (q7\<lparr>q_id := 1, q_createdAt := 1000, q_updatedAt := 1000\<rparr>) = Pending"
proof -
  have h: "create_query test_env campus (Some alice)
     \<lparr>qb_subject = JStr ''Grade issue'', qb_description = JStr ''My internal marks seem wrong'',
      qb_status = JStr ''resolved''\<rparr>
   = (Reply 201 (Data (q7\<lparr>q_id := 1, q_createdAt := 1000, q_updatedAt := 1000\<rparr>)),
      campus\<lparr>queries := [q7\<lparr>q_id := 1, q_createdAt := 1000, q_updatedAt := 1000\<rparr>],
        queries_seq := 2\<rparr>)"
    by (simp add: create_query_def ex_defs getStudentProfile_def getProctorProfileById_def
      insertQuerySchema_def createQuery_def pg_text_def Let_def)
  show ?thesis using h created_query_is_pending [OF h] by simp
qed

section \<open>Login and the password-reset request\<close>

text \<open>
  C10, as stated, fails where \<open>loginSchema\<close> refuses the body: Alice, a student,
  gives her e-mail and her password and asks for the role ``admin''; Carol, a student
  whose stored password has three characters, gives hers and asks for the role
  ``proctor''. Both are answered 400, not 403.
\<close>

theorem login_schema_precedes_role_check_counterexample:
  "getUserByEmail campus_q ''alice@uni.edu'' = Inr (Some alice)
   \<and> comparePasswords test_lib ''secret1'' (u_password alice) = Inr True
   \<and> role_name (u_role alice) \<noteq> ''admin''
   \<and> login test_lib campus_q None
        \<lparr>lb_email = JStr ''alice@uni.edu'', lb_password = JStr ''secret1'', lb_role = JStr ''admin''\<rparr>
       = (Reply 400 (MessageErrors ''Invalid login data''), None)
   \<and> getUserByEmail campus_q ''carol@uni.edu'' = Inr (Some carol)
   \<and> comparePasswords test_lib ''abc'' (u_password carol) = Inr True
   \<and> role_name (u_role carol) \<noteq> ''proctor''
   \<and> login test_lib campus_q None
        \<lparr>lb_email = JStr ''carol@uni.edu'', lb_password = JStr ''abc'', lb_role = JStr ''proctor''\<rparr>
       = (Reply 400 (MessageErrors ''Invalid login data''), None)"
  by (simp add: ex_defs getUserByEmail_def pg_text_def comparePasswords_def split_dot_def
      test_lib_def login_def loginSchema_def Let_def)

text \<open>
  C10, amended. A body that fails \<open>loginSchema\<close> is answered 400 ``Invalid login
  data'' with the session as before, whatever the credentials. When the body passes,
  the e-mail is that of a stored user, the password compares equal to the stored one
  and the name of the stored role is not the role of the body, the answer is 403
  ``Authentication failed. You are not a <role>.'' and the session is as before.
  Whenever a login changes the session, the role of the body is the stored role of the
  user now logged in, and the answer is 200.
\<close>

theorem login_role_mismatch_is_forbidden:
  "(\<not> loginSchema L b
    \<longrightarrow> login L s session b = (Reply 400 (MessageErrors ''Invalid login data''), session))
   \<and> (loginSchema L b \<and> getUserByEmail s (str_of (lb_email b)) = Inr (Some u)
      \<and> comparePasswords L (str_of (lb_password b)) (u_password u) = Inr True
      \<and> role_name (u_role u) \<noteq> str_of (lb_role b)
    \<longrightarrow> login L s session b
          = (Reply 403 (Message (''Authentication failed. You are not a ''
                                   @ str_of (lb_role b) @ ''.'')), session))
   \<and> (snd (login L s session b) \<noteq> session
    \<longrightarrow> (\<exists>v. getUserByEmail s (str_of (lb_email b)) = Inr (Some v)
              \<and> role_name (u_role v) = str_of (lb_role b)
              \<and> login L s session b = (Reply 200 (Data (without_password v)), Some (u_id v))))"
proof -
  have z: "login L s session b = (Reply 400 (MessageErrors ''Invalid login data''), session)"
    if "\<not> loginSchema L b"
    using that by (simp add: login_def)
  have a: "login L s session b
          = (Reply 403 (Message (''Authentication failed. You are not a ''
                                   @ str_of (lb_role b) @ ''.'')), session)"
    if "loginSchema L b" "getUserByEmail s (str_of (lb_email b)) = Inr (Some u)"
       "comparePasswords L (str_of (lb_password b)) (u_password u) = Inr True"
       "role_name (u_role u) \<noteq> str_of (lb_role b)"
    using that by (simp add: login_def localStrategy_def)
  have c: "\<exists>v. getUserByEmail s (str_of (lb_email b)) = Inr (Some v)
              \<and> role_name (u_role v) = str_of (lb_role b)
              \<and> login L s session b = (Reply 200 (Data (without_password v)), Some (u_id v))"
    if "snd (login L s session b) \<noteq> session"
    using that
    by (auto simp: login_def localStrategy_def split: if_splits option.splits sum.splits)
  show ?thesis using z a c by blast
qed

theorem login_role_mismatch_is_forbidden_witness:
  "login test_lib campus_q None
        \<lparr>lb_email = JStr ''alice@uni.edu'', lb_password = JStr ''secret1'', lb_role = JStr ''proctor''\<rparr>
       = (Reply 403 (Message ''Authentication failed. You are not a proctor.''), None)
   \<and> login test_lib campus_q None
        \<lparr>lb_email = JStr ''alice@uni.edu'', lb_password = JStr ''secret1'', lb_role = JStr ''student''\<rparr>
       = (Reply 200 (Data (without_password alice)), Some 1)
   \<and> login test_lib campus_q (Some 2)
        \<lparr>lb_email = JStr ''alice@uni.edu'', lb_password = JStr ''secret1'', lb_role = JStr ''admin''\<rparr>
       = (Reply 400 (MessageErrors ''Invalid login data''), Some 2)"
proof -
  let ?b = "\<lparr>lb_email = JStr ''alice@uni.edu'', lb_password = JStr ''secret1'', lb_role = JStr ''proctor''\<rparr>"
  let ?c = "\<lparr>lb_email = JStr ''alice@uni.edu'', lb_password = JStr ''secret1'', lb_role = JStr ''student''\<rparr>"
  let ?d = "\<lparr>lb_email = JStr ''alice@uni.edu'', lb_password = JStr ''secret1'', lb_role = JStr ''admin''\<rparr>"
  have h: "loginSchema test_lib ?b" "getUserByEmail campus_q (str_of (lb_email ?b)) = Inr (Some alice)"
    "comparePasswords test_lib (str_of (lb_password ?b)) (u_password alice) = Inr True"
    "role_name (u_role alice) \<noteq> str_of (lb_role ?b)"
    by (simp_all add: ex_defs getUserByEmail_def pg_text_def comparePasswords_def split_dot_def
      test_lib_def loginSchema_def Let_def)
  have k: "snd (login test_lib campus_q None ?c) \<noteq> None"
    by (simp add: ex_defs getUserByEmail_def pg_text_def comparePasswords_def split_dot_def
      test_lib_def login_def localStrategy_def loginSchema_def Let_def)
  have g: "getUserByEmail campus_q (str_of (lb_email ?c)) = Inr (Some alice)"
    by (simp add: ex_defs getUserByEmail_def pg_text_def)
  have n: "\<not> loginSchema test_lib ?d"
    by (simp add: loginSchema_def)
  show ?thesis
    using h k g n login_role_mismatch_is_forbidden [of test_lib ?b campus_q None alice]
      login_role_mismatch_is_forbidden [of test_lib ?c campus_q None alice]
      login_role_mismatch_is_forbidden [of test_lib ?d campus_q "Some 2" alice]
    by (auto simp: alice_def)
qed

text \<open>
  The reply of POST /api/forgot-password for a body that passes the schema. When the
  mail is rejected, the reply is 500 exactly when an account with the e-mail and the
  role exists. When the insert is accepted and the mail delivered, the reply is the
  one message whether or not the account exists.
\<close>

lemma forgot_password_mail_rejected:
  assumes "passwordResetRequestSchema L b" and "pg_text (str_of (fb_email b))"
    and "\<not> sendMailOk e"
  shows "fst (forgot_password L e s b)
         = (case find (\<lambda>u. u_email u = str_of (fb_email b)) (users s) of
              None \<Rightarrow> Reply 200 (Message reset_link_sent)
            | Some u \<Rightarrow>
                if role_name (u_role u) = str_of (fb_role b)
                then Reply 500 (Message ''Failed to process password reset request'')
                else Reply 200 (Message reset_link_sent))"
  using assms
  by (auto simp: forgot_password_def getUserByEmail_def Let_def
      split: option.splits sum.splits prod.splits)

lemma forgot_password_mail_delivered:
  assumes "passwordResetRequestSchema L b" and "pg_text (str_of (fb_email b))"
    and "sendMailOk e" and "pg_text (randomToken e)"
    and "randomToken e \<notin> t_token ` set (passwordResetTokens s)"
    and "passwordResetTokens_seq s \<le> 2147483647"
    and "passwordResetTokens_seq s \<notin> t_id ` set (passwordResetTokens s)"
  shows "fst (forgot_password L e s b) = Reply 200 (Message reset_link_sent)"
  using assms
  by (auto simp: forgot_password_def getUserByEmail_def createPasswordResetToken_def Let_def
      split: option.splits)

text \<open>
  C9. The reply should not tell whether an account exists. When the mail is rejected,
  the request for Alice's account is answered 500 and the request for an address
  without account, in the same database and with the same mail server, is answered
  200 with the message.
\<close>

theorem forgot_password_reveals_account:
  "getUserByEmail campus ''alice@uni.edu'' = Inr (Some alice)
   \<and> getUserByEmail campus ''zoe@uni.edu'' = Inr None
   \<and> fst (forgot_password test_lib (test_env\<lparr>sendMailOk := False\<rparr>) campus
        \<lparr>fb_email = JStr ''alice@uni.edu'', fb_role = JStr ''student''\<rparr>)
       = Reply 500 (Message ''Failed to process password reset request'')
   \<and> fst (forgot_password test_lib (test_env\<lparr>sendMailOk := False\<rparr>) campus
        \<lparr>fb_email = JStr ''zoe@uni.edu'', fb_role = JStr ''student''\<rparr>)
       = Reply 200 (Message reset_link_sent)"
  by (simp add: ex_defs getUserByEmail_def pg_text_def forgot_password_def
      passwordResetRequestSchema_def test_lib_def createPasswordResetToken_def Let_def)

section \<open>Attendance and subject averages\<close>

lemma proto_simps:
  "''constructor'' \<in> set object_prototype_keys"
  "''Algorithms'' \<notin> set object_prototype_keys"
  by (simp_all add: object_prototype_keys_def)

lemma not_index_simps:
  "\<not> is_array_index ''Algorithms''"
  by (simp add: is_array_index_def is_digit_def)

text \<open>
  C4. The percentages should be taken per course and, overall, over all of the rows.
  Alice has four rows, three of them present. The two rows of the course named
  ``constructor'' find the inherited member of the dictionary and are counted
  nowhere: the report has no entry for that course and an overall of one class
  attended out of two.
\<close>

theorem attendance_skips_inherited_course_name:
  "getStudentAttendance campus_records (sp_id alice_profile) = alice_rows
   \<and> length alice_rows = 4 \<and> length (filter at_isPresent alice_rows) = 3
   \<and> student_attendance campus_records (Some alice)
       = Reply 200 (Data \<lparr>rep_records = alice_rows,
           rep_courseWise = [(''Algorithms'', \<lparr>c_total = 2, c_present = 1,
              c_percentage = ToFixed2 (Times (Divide (Lit 1) (Lit 2)) (Lit 100))\<rparr>)],
           rep_overall = \<lparr>c_total = 2, c_present = 1,
              c_percentage = ToFixed2 (Times (Divide (Lit 1) (Lit 2)) (Lit 100))\<rparr>\<rparr>)"
proof -
  have rows: "getStudentAttendance campus_records (sp_id alice_profile) = alice_rows"
    by (simp add: getStudentAttendance_def campus_records_def ex_defs alice_rows_def att_def)
  have prof: "getStudentProfile campus_records (u_id alice) = Some alice_profile"
    by (simp add: getStudentProfile_def campus_records_def ex_defs)
  have fold: "foldl count_record [] alice_rows
              = [(''Algorithms'', \<lparr>c_total = 2, c_present = 1, c_percentage = Lit 0\<rparr>)]"
    by (simp add: alice_rows_def att_def count_record_def get_property_def proto_simps)
  have rep: "attendance_report alice_rows
       = \<lparr>rep_records = alice_rows,
           rep_courseWise = [(''Algorithms'', \<lparr>c_total = 2, c_present = 1,
              c_percentage = ToFixed2 (Times (Divide (Lit 1) (Lit 2)) (Lit 100))\<rparr>)],
           rep_overall = \<lparr>c_total = 2, c_present = 1,
              c_percentage = ToFixed2 (Times (Divide (Lit 1) (Lit 2)) (Lit 100))\<rparr>\<rparr>"
    unfolding attendance_report_def fold
    by (simp add: own_entries_def not_index_simps percentage_of_def)
  have len: "length alice_rows = 4" "length (filter at_isPresent alice_rows) = 3"
    by (simp_all add: alice_rows_def att_def)
  have role: "u_role alice = Student"
    by (simp add: alice_def)
  show ?thesis
    using rows len by (simp add: student_attendance_def prof role rep)
qed

text \<open>
  C7. Every course name in the records of the proctor's students should come with its
  average. Bob's only student has a record in Algorithms and one in the course named
  ``constructor''; the report holds the average of Algorithms alone.
\<close>

theorem academic_skips_inherited_course_name:
  "getProctorProfile campus_records (u_id bob) = Some bob_profile
   \<and> getStudentsByProctor campus_records (pp_id bob_profile) = [alice_profile]
   \<and> getStudentAcademicRecords campus_records (sp_id alice_profile)
       = [rec_algorithms, rec_constructor]
   \<and> ar_courseName rec_constructor = ''constructor''
   \<and> proctor_academic campus_records (Some bob)
       = Reply 200 (Data [(''Algorithms'',
           ToFixed2 (Divide (Plus (Plus (Plus (Lit 80) (Lit 70)) (Lit 0)) (Lit 90)) (Lit 1)))])"
proof -
  have prof: "getProctorProfile campus_records (u_id bob) = Some bob_profile"
    by (simp add: getProctorProfile_def campus_records_def ex_defs)
  have studs: "getStudentsByProctor campus_records (pp_id bob_profile) = [alice_profile]"
    by (simp add: getStudentsByProctor_def getProctorProfileById_def campus_records_def ex_defs)
  have recs: "getStudentAcademicRecords campus_records (sp_id alice_profile)
       = [rec_algorithms, rec_constructor]"
    by (simp add: getStudentAcademicRecords_def campus_records_def ex_defs rec_algorithms_def
        rec_constructor_def)
  have fold: "foldl group_record [] [rec_algorithms, rec_constructor]
       = [(''Algorithms'', \<lparr>totalScore = Plus (Plus (Plus (Lit 80) (Lit 70)) (Lit 0)) (Lit 90),
             recordCount = 1\<rparr>)]"
    by (simp add: group_record_def get_property_def proto_simps rec_algorithms_def
        rec_constructor_def marks_total_def mark_def)
  have avg: "subject_averages [rec_algorithms, rec_constructor]
       = [(''Algorithms'',
           ToFixed2 (Divide (Plus (Plus (Plus (Lit 80) (Lit 70)) (Lit 0)) (Lit 90)) (Lit 1)))]"
    unfolding subject_averages_def fold by (simp add: own_entries_def not_index_simps)
  have role: "u_role bob = Proctor"
    by (simp add: bob_def)
  have name: "ar_courseName rec_constructor = ''constructor''"
    by (simp add: rec_constructor_def)
  show ?thesis
    using prof studs recs name by (simp add: proctor_academic_def role avg)
qed

text \<open>
  What the two reports hold for every other course name. \<open>Object.keys\<close> and
  \<open>Object.entries\<close> only reorder the own properties.
\<close>

lemma mset_own_entries: "mset (own_entries obj) = mset obj"
  by (simp add: own_entries_def multiset_partition [symmetric])

lemma set_own_entries: "set (own_entries obj) = set obj"
  using mset_own_entries [of obj] by (metis set_mset_mset)

lemma sum_list_own_entries:
  fixes f :: "string \<times> 'v \<Rightarrow> nat"
  shows "sum_list (map f (own_entries obj)) = sum_list (map f obj)"
proof -
  have "sum_mset (image_mset f (mset (own_entries obj))) = sum_mset (image_mset f (mset obj))"
    by (simp add: mset_own_entries)
  then show ?thesis
    by (metis mset_map sum_mset_sum_list)
qed

lemma distinct_own_entries:
  "distinct (map fst obj) \<Longrightarrow> distinct (map fst (own_entries obj))"
proof -
  assume d: "distinct (map fst obj)"
  have "mset (map fst (own_entries obj)) = mset (map fst obj)"
    by (metis mset_map mset_own_entries)
  then show ?thesis using d by (metis mset_eq_imp_distinct_iff)
qed

lemma map_of_own_entries:
  "distinct (map fst obj) \<Longrightarrow> map_of (own_entries obj) = map_of obj"
  by (simp add: map_of_inject_set distinct_own_entries set_own_entries)


lemma sum_update_new:
  fixes g :: "'v \<Rightarrow> nat"
  shows "map_of obj k = None \<Longrightarrow>
    sum_list (map (\<lambda>(k, v). g v) (AList.update k v obj)) = sum_list (map (\<lambda>(k, v). g v) obj) + g v"
  by (induction obj) (auto split: if_splits)

lemma sum_update_old:
  fixes g :: "'v \<Rightarrow> nat"
  shows "map_of obj k = Some w \<Longrightarrow>
    sum_list (map (\<lambda>(k, v). g v) (AList.update k v obj)) + g w
      = sum_list (map (\<lambda>(k, v). g v) obj) + g v"
  by (induction obj) (auto split: if_splits)

text \<open>The three cases of the loop body.\<close>

lemma count_record_Own:
  "get_property obj (at_courseName r) = Own w \<Longrightarrow>
   count_record obj r
   = AList.update (at_courseName r)
       (w\<lparr>c_total := c_total w + 1,
          c_present := c_present w + (if at_isPresent r then 1 else 0)\<rparr>) obj"
  by (simp add: count_record_def Let_def)

lemma count_record_Missing:
  "get_property obj (at_courseName r) = Missing \<Longrightarrow>
   count_record obj r
   = AList.update (at_courseName r)
       \<lparr>c_total = 1, c_present = (if at_isPresent r then 1 else 0), c_percentage = Lit 0\<rparr> obj"
  by (simp add: count_record_def Let_def)

lemma count_record_Inherited:
  "get_property obj (at_courseName r) = Inherited \<Longrightarrow> count_record obj r = obj"
  by (simp add: count_record_def Let_def)

lemma get_property_cases:
  "get_property obj k = Own w \<longleftrightarrow> map_of obj k = Some w"
  "get_property obj k = Inherited \<longleftrightarrow> map_of obj k = None \<and> k \<in> set object_prototype_keys"
  "get_property obj k = Missing \<longleftrightarrow> map_of obj k = None \<and> k \<notin> set object_prototype_keys"
  by (auto simp: get_property_def split: option.splits)

lemma distinct_counted: "distinct (map fst (foldl count_record [] rows))"
proof (induction rows rule: rev_induct)
  case Nil
  then show ?case by simp
next
  case (snoc r rows)
  then show ?case
    by (simp add: count_record_def Let_def distinct_update split: property.splits)
qed

text \<open>
  After the loop the dictionary holds, for each course name that is not inherited,
  the number of its rows and the number of those that are present.
\<close>

lemma lookup_counted:
  "map_of (foldl count_record [] rows) c =
     (if c \<in> set object_prototype_keys \<or> c \<notin> at_courseName ` set rows then None
      else Some \<lparr>c_total = length (filter (\<lambda>r. at_courseName r = c) rows),
                 c_present = length (filter at_isPresent (filter (\<lambda>r. at_courseName r = c) rows)),
                 c_percentage = Lit 0\<rparr>)"
proof (induction rows arbitrary: c rule: rev_induct)
  case Nil
  then show ?case by simp
next
  case (snoc r rows)
  let ?obj = "foldl count_record [] rows"
  let ?n = "at_courseName r"
  have here: "map_of ?obj ?n =
     (if ?n \<in> set object_prototype_keys \<or> ?n \<notin> at_courseName ` set rows then None
      else Some \<lparr>c_total = length (filter (\<lambda>x. at_courseName x = ?n) rows),
                 c_present = length (filter at_isPresent (filter (\<lambda>x. at_courseName x = ?n) rows)),
                 c_percentage = Lit 0\<rparr>)"
    by (rule snoc.IH)
  have none: "filter (\<lambda>x. at_courseName x = ?n) rows = []" if "?n \<notin> at_courseName ` set rows"
  proof -
    have "\<forall>x \<in> set rows. at_courseName x \<noteq> ?n"
      using that by (metis imageI)
    then show ?thesis by (simp add: filter_empty_conv)
  qed
  have none': "filter (\<lambda>x. at_courseName x = ?n \<and> at_isPresent x) rows = []"
    if "?n \<notin> at_courseName ` set rows"
  proof -
    have "\<forall>x \<in> set rows. at_courseName x \<noteq> ?n"
      using that by (metis imageI)
    then show ?thesis by (simp add: filter_empty_conv)
  qed
  have unfold: "foldl count_record [] (rows @ [r]) = count_record ?obj r"
    by simp
  show ?case
  proof (cases "?n \<in> set object_prototype_keys")
    case True
    then have gp: "get_property ?obj ?n = Inherited"
      using here by (simp add: get_property_cases)
    show ?thesis
      unfolding unfold count_record_Inherited [OF gp] using True snoc.IH [of c] by auto
  next
    case False
    show ?thesis
    proof (cases "?n \<in> at_courseName ` set rows")
      case seen: True
      let ?w = "\<lparr>c_total = length (filter (\<lambda>x. at_courseName x = ?n) rows),
                 c_present = length (filter at_isPresent (filter (\<lambda>x. at_courseName x = ?n) rows)),
                 c_percentage = Lit 0\<rparr>"
      have gp: "get_property ?obj ?n = Own ?w"
        using here False seen by (simp add: get_property_cases)
      show ?thesis
        unfolding unfold count_record_Own [OF gp]
        using False seen snoc.IH [of c] by (auto simp: update_conv')
    next
      case new: False
      have gp: "get_property ?obj ?n = Missing"
        using here False new by (simp add: get_property_cases)
      show ?thesis
        unfolding unfold count_record_Missing [OF gp]
        using False new none [OF new] none' [OF new] snoc.IH [of c] by (auto simp: update_conv')
    qed
  qed
qed

lemma counted_sums:
  "sum_list (map (\<lambda>(course, c). c_total c) (foldl count_record [] rows))
     = length (filter (\<lambda>r. at_courseName r \<notin> set object_prototype_keys) rows)
   \<and> sum_list (map (\<lambda>(course, c). c_present c) (foldl count_record [] rows))
     = length (filter at_isPresent
         (filter (\<lambda>r. at_courseName r \<notin> set object_prototype_keys) rows))"
proof (induction rows rule: rev_induct)
  case Nil
  then show ?case by simp
next
  case (snoc r rows)
  let ?obj = "foldl count_record [] rows"
  let ?n = "at_courseName r"
  have unfold: "foldl count_record [] (rows @ [r]) = count_record ?obj r"
    by simp
  show ?case
  proof (cases "get_property ?obj ?n")
    case (Own w)
    let ?w' = "w\<lparr>c_total := c_total w + 1,
          c_present := c_present w + (if at_isPresent r then 1 else 0)\<rparr>"
    have m: "map_of ?obj ?n = Some w"
      using Own by (simp add: get_property_cases)
    then have ok: "?n \<notin> set object_prototype_keys"
      by (auto simp: lookup_counted split: if_splits)
    have t: "sum_list (map (\<lambda>(course, c). c_total c) (AList.update ?n ?w' ?obj))
             = sum_list (map (\<lambda>(course, c). c_total c) ?obj) + 1"
      using sum_update_old [OF m, of c_total ?w'] by simp
    have p: "sum_list (map (\<lambda>(course, c). c_present c) (AList.update ?n ?w' ?obj))
             = sum_list (map (\<lambda>(course, c). c_present c) ?obj)
               + (if at_isPresent r then 1 else 0)"
      using sum_update_old [OF m, of c_present ?w'] by simp
    show ?thesis
      unfolding unfold count_record_Own [OF Own] t p using snoc ok by simp
  next
    case Inherited
    then have "?n \<in> set object_prototype_keys"
      by (simp add: get_property_cases)
    then show ?thesis
      unfolding unfold count_record_Inherited [OF Inherited] using snoc by simp
  next
    case Missing
    then have m: "map_of ?obj ?n = None" and ok: "?n \<notin> set object_prototype_keys"
      by (simp_all add: get_property_cases)
    show ?thesis
      unfolding unfold count_record_Missing [OF Missing] using snoc ok
      by (simp add: sum_update_new [OF m])
  qed
qed

text \<open>
  The overall entry is the summary, as GET /api/proctor/students computes it, of the
  rows whose course name is not inherited: the formula over rows, not an average of
  the percentages of the courses. With no such row the percentage is the literal 0.
\<close>

lemma attendance_overall:
  "rep_overall (attendance_report rows)
   = attendance_summary (filter (\<lambda>r. at_courseName r \<notin> set object_prototype_keys) rows)"
  by (simp add: attendance_report_def attendance_summary_def Let_def sum_list_own_entries
      counted_sums)

text \<open>The entry of a course is the summary of the rows of that course.\<close>

lemma attendance_courseWise:
  "map_of (rep_courseWise (attendance_report rows)) c =
     (if c \<in> set object_prototype_keys \<or> c \<notin> at_courseName ` set rows then None
      else Some (attendance_summary (filter (\<lambda>r. at_courseName r = c) rows)))"
  by (simp add: attendance_report_def attendance_summary_def Let_def map_of_map
      map_of_own_entries distinct_counted lookup_counted)

lemma attendance_zero_total: "c_percentage (attendance_summary []) = Lit 0"
  by (simp add: attendance_summary_def percentage_of_def)


lemma group_record_Own:
  "get_property acc (ar_courseName r) = Own g \<Longrightarrow>
   group_record acc r
   = AList.update (ar_courseName r)
       \<lparr>totalScore = Plus (totalScore g) (marks_total r), recordCount = recordCount g + 1\<rparr> acc"
  by (simp add: group_record_def)

lemma group_record_Missing:
  "get_property acc (ar_courseName r) = Missing \<Longrightarrow>
   group_record acc r
   = AList.update (ar_courseName r) \<lparr>totalScore = marks_total r, recordCount = 1\<rparr> acc"
  by (simp add: group_record_def)

lemma group_record_Inherited:
  "get_property acc (ar_courseName r) = Inherited \<Longrightarrow> group_record acc r = acc"
  by (simp add: group_record_def)

lemma distinct_grouped: "distinct (map fst (foldl group_record [] recs))"
proof (induction recs rule: rev_induct)
  case Nil
  then show ?case by simp
next
  case (snoc r recs)
  then show ?case
    by (simp add: group_record_def distinct_update split: property.splits)
qed

lemma sum_of_marks_single: "sum_of_marks [r] = marks_total r"
  by (simp add: sum_of_marks_def)

lemma sum_of_marks_snoc:
  "rs \<noteq> [] \<Longrightarrow> sum_of_marks (rs @ [r]) = Plus (sum_of_marks rs) (marks_total r)"
  by (cases rs) (simp_all add: sum_of_marks_def)

text \<open>
  The same for the subject averages: for a course name that is not inherited, the
  sum of the marks of its records, in their order, divided by their number.
\<close>

lemma lookup_grouped:
  "map_of (foldl group_record [] recs) c =
     (if c \<in> set object_prototype_keys \<or> c \<notin> ar_courseName ` set recs then None
      else Some \<lparr>totalScore = sum_of_marks (filter (\<lambda>r. ar_courseName r = c) recs),
                 recordCount = length (filter (\<lambda>r. ar_courseName r = c) recs)\<rparr>)"
proof (induction recs arbitrary: c rule: rev_induct)
  case Nil
  then show ?case by simp
next
  case (snoc r recs)
  let ?acc = "foldl group_record [] recs"
  let ?n = "ar_courseName r"
  let ?of = "\<lambda>k. filter (\<lambda>x. ar_courseName x = k) recs"
  have here: "map_of ?acc ?n =
     (if ?n \<in> set object_prototype_keys \<or> ?n \<notin> ar_courseName ` set recs then None
      else Some \<lparr>totalScore = sum_of_marks (?of ?n), recordCount = length (?of ?n)\<rparr>)"
    by (rule snoc.IH)
  have unfold: "foldl group_record [] (recs @ [r]) = group_record ?acc r"
    by simp
  show ?case
  proof (cases "?n \<in> set object_prototype_keys")
    case True
    then have gp: "get_property ?acc ?n = Inherited"
      using here by (simp add: get_property_cases)
    show ?thesis
      unfolding unfold group_record_Inherited [OF gp] using True snoc.IH [of c] by auto
  next
    case False
    show ?thesis
    proof (cases "?n \<in> ar_courseName ` set recs")
      case seen: True
      then have ne: "?of ?n \<noteq> []"
        by (auto simp: filter_empty_conv)
      have gp: "get_property ?acc ?n
                = Own \<lparr>totalScore = sum_of_marks (?of ?n), recordCount = length (?of ?n)\<rparr>"
        using here False seen by (simp add: get_property_cases)
      show ?thesis
        unfolding unfold group_record_Own [OF gp]
        using False seen snoc.IH [of c] sum_of_marks_snoc [OF ne, of r]
        by (auto simp: update_conv')
    next
      case new: False
      have none: "?of ?n = []"
      proof -
        have "\<forall>x \<in> set recs. ar_courseName x \<noteq> ?n"
          using new by (metis imageI)
        then show ?thesis by (simp add: filter_empty_conv)
      qed
      have gp: "get_property ?acc ?n = Missing"
        using here False new by (simp add: get_property_cases)
      show ?thesis
        unfolding unfold group_record_Missing [OF gp]
        using False new none snoc.IH [of c]
        by (auto simp: update_conv' sum_of_marks_single)
    qed
  qed
qed

lemma subject_average_of_course:
  "map_of (subject_averages recs) c =
     (if c \<in> set object_prototype_keys \<or> c \<notin> ar_courseName ` set recs then None
      else Some (ToFixed2 (Divide (sum_of_marks (filter (\<lambda>r. ar_courseName r = c) recs))
                   (Lit (of_nat (length (filter (\<lambda>r. ar_courseName r = c) recs)))))))"
  by (simp add: subject_averages_def map_of_map map_of_own_entries distinct_grouped
      lookup_grouped)

end
